theory Spec2Isabelle
  imports Main "HOL-Library.Sublist"
begin

section \<open>Data model of \<open>src/lib/transcript.ts\<close>\<close>

text \<open>
  \<open>TranscriptEntry\<close> and \<open>SupadataTranscriptResponse\<close> are the two interfaces of the
  source. The \<open>offset\<close> of an entry is a number of milliseconds (the source's comment);
  it is modelled as an integer. An optional field is an \<open>option\<close>.
\<close>

record TranscriptEntry =
  offset :: int
  "text" :: string

record SupadataTranscriptResponse =
  transcript :: "TranscriptEntry list option"
  error :: "string option"

text \<open>
  Every \<open>await\<close> of the source either yields a value or throws. The second case is a
  value of its own, so that each \<open>catch\<close> of the source is a branch of the model.
\<close>

datatype 'a outcome = Throws | Returns 'a

text \<open>
  The key-value namespace behind the \<open>TRANSCRIPT_CACHE\<close> binding. Its store maps a key to
  the cached sequence and the expiration (\<open>expirationTtl\<close>, in seconds) it was written
  with; \<open>None\<close> is a write without expiration. The source serialises the sequence with
  \<open>JSON.stringify\<close> on writing and reads it back with \<open>type: 'json'\<close>; the model keeps the
  sequence itself. Whether \<open>get\<close> and \<open>put\<close> throw is decided by the environment: a
  binding that is not a usable namespace (the cast of line 30 does not check it) is one
  whose calls always throw. A \<open>put\<close> that throws leaves the store as it was.
\<close>

record KVNamespace =
  store :: "string \<rightharpoonup> TranscriptEntry list \<times> nat option"
  get_throws :: bool
  put_throws :: bool

text \<open>
  What \<open>fetch\<close> resolves to: the status code, the \<open>content-type\<close> header (\<open>None\<close> when the
  header is absent, as \<open>headers.get\<close> returns \<open>null\<close>), and what \<open>response.text()\<close> and
  \<open>response.json()\<close> yield (\<open>None\<close> when the call rejects: a body that cannot be read, or
  one that is not JSON).
\<close>

record Response =
  status :: nat
  content_type :: "string option"
  body_text :: "string option"
  body_json :: "SupadataTranscriptResponse option"

datatype fetch_result = Rejected | Resolved Response

text \<open>
  The effects of an invocation, in the order they happen: console output, calls on the
  namespace, the outbound HTTP request, and the reads of the response body. A console
  call is recorded by its level and the line of \<open>src/lib/transcript.ts\<close> it stands on; the
  text it prints is in the source and no result depends on it.
\<close>

datatype level = LOG | WARN | ERROR

datatype event =
    Console level nat
  | KvGet string
  | KvPut string "TranscriptEntry list" "nat option"
  | HttpGet string "(string \<times> string) list"
  | ReadText
  | ReadJson

text \<open>
  The environment of an invocation: the two variables of \<open>process.env\<close> the source reads,
  the remote provider (what \<open>fetch\<close> yields for a URL and request headers), and the
  effects so far.
\<close>

record world =
  SUPADATA_API_KEY :: "string option"
  TRANSCRIPT_CACHE :: "KVNamespace option"
  remote :: "string \<Rightarrow> (string \<times> string) list \<Rightarrow> fetch_result"
  effects :: "event list"

section \<open>JavaScript primitives the source uses\<close>

text \<open>Truthiness of a value of type \<open>string | undefined\<close>: defined and not empty.\<close>

definition truthy :: "string option \<Rightarrow> bool" where
  "truthy s = (case s of None \<Rightarrow> False | Some v \<Rightarrow> v \<noteq> [])"

text \<open>\<open>String.prototype.includes\<close>: the argument occurs as a contiguous substring.\<close>

fun includes_str :: "string \<Rightarrow> string \<Rightarrow> bool" where
  "includes_str [] sub = (sub = [])"
| "includes_str (c # cs) sub = (prefix sub (c # cs) \<or> includes_str cs sub)"

text \<open>\<open>response.ok\<close>: the status is in the range 200 to 299.\<close>

definition ok :: "Response \<Rightarrow> bool" where
  "ok r = (200 \<le> status r \<and> status r \<le> 299)"

text \<open>
  A JavaScript string is a sequence of 16-bit code units. It is modelled by its bytes in
  the generalised UTF-8 encoding: a character beyond ASCII is several bytes, a surrogate
  pair is the four bytes of its code point, and a surrogate that is not paired is the
  three bytes \<open>ED\<close>, \<open>A0\<close> to \<open>BF\<close>, \<open>80\<close> to \<open>BF\<close>, which stand for nothing else.
\<close>

fun unpaired_surrogate :: "string \<Rightarrow> bool" where
  "unpaired_surrogate (a # b # cs) =
     ((of_char a = (0xED :: nat) \<and> (0xA0 :: nat) \<le> of_char b \<and> of_char b \<le> (0xBF :: nat))
      \<or> unpaired_surrogate (b # cs))"
| "unpaired_surrogate _ = False"

text \<open>
  \<open>encodeURIComponent\<close>: it throws a \<open>URIError\<close> on a string with an unpaired surrogate;
  otherwise letters, digits and the marks \<open>- _ . ! ~ * ' ( )\<close> stay, and every other byte
  of the UTF-8 encoding becomes \<open>%\<close> and two hexadecimal digits.
\<close>

definition uriUnreserved :: "char \<Rightarrow> bool" where
  "uriUnreserved c =
     (c \<in> set ''ABCDEFGHIJKLMNOPQRSTUVWXYZabcdefghijklmnopqrstuvwxyz0123456789-_.!~*()''
      \<or> c = CHR 0x27)"

definition hexDigit :: "nat \<Rightarrow> char" where
  "hexDigit n = ''0123456789ABCDEF'' ! (n mod 16)"

definition encodeURIComponent :: "string \<Rightarrow> string outcome" where
  "encodeURIComponent s =
     (if unpaired_surrogate s then Throws
      else Returns (concat (map (\<lambda>c. if uriUnreserved c then [c]
                       else [CHR ''%'', hexDigit (of_char c div 16), hexDigit (of_char c)]) s)))"

section \<open>The effects\<close>

definition emit :: "event \<Rightarrow> world \<Rightarrow> world" where
  "emit e w = w\<lparr>effects := effects w @ [e]\<rparr>"

text \<open>
  \<open>kv.get(key, { type: 'json' })\<close> and \<open>kv.put(key, value, { expirationTtl })\<close> on the
  bound namespace. The source calls them only under \<open>if (kv)\<close>; on a missing binding the
  call would throw.
\<close>

definition kv_get :: "string \<Rightarrow> world \<Rightarrow> TranscriptEntry list option outcome \<times> world" where
  "kv_get key w =
     (case TRANSCRIPT_CACHE w of
        None \<Rightarrow> (Throws, w)
      | Some kv \<Rightarrow>
          if get_throws kv then (Throws, emit (KvGet key) w)
          else (Returns (map_option fst (store kv key)), emit (KvGet key) w))"

definition kv_put :: "string \<Rightarrow> TranscriptEntry list \<Rightarrow> nat option \<Rightarrow> world \<Rightarrow> unit outcome \<times> world" where
  "kv_put key v ttl w =
     (case TRANSCRIPT_CACHE w of
        None \<Rightarrow> (Throws, w)
      | Some kv \<Rightarrow>
          if put_throws kv then (Throws, emit (KvPut key v ttl) w)
          else (Returns (),
                emit (KvPut key v ttl)
                  (w\<lparr>TRANSCRIPT_CACHE := Some (kv\<lparr>store := (store kv)(key \<mapsto> (v, ttl))\<rparr>)\<rparr>)))"

definition http_get :: "string \<Rightarrow> (string \<times> string) list \<Rightarrow> world \<Rightarrow> fetch_result \<times> world" where
  "http_get url headers w = (remote w url headers, emit (HttpGet url headers) w)"

section \<open>\<open>getTranscriptCacheKV\<close> (lines 20 to 48)\<close>

text \<open>
  The binding when \<open>process.env.TRANSCRIPT_CACHE\<close> is set, else \<open>null\<close> after a warning.
  The result tells the caller that the binding is there; the namespace itself stays in
  the world, where \<open>kv_get\<close> and \<open>kv_put\<close> reach it.
\<close>

definition getTranscriptCacheKV :: "world \<Rightarrow> KVNamespace option \<times> world" where
  "getTranscriptCacheKV w =
     (case TRANSCRIPT_CACHE w of
        Some kv \<Rightarrow> (Some kv, w)
      | None \<Rightarrow>
          (None, emit (Console WARN 46) w))"

section \<open>\<open>getTranscript\<close> (lines 50 to 186)\<close>

text \<open>
  The pattern \<open>if (kv) { try { await kv.put(...); console.log(...) } catch { console.error(...) } }\<close>
  of lines 101 to 109, 140 to 147, 154 to 161 and 167 to 177: a write that throws is
  logged and changes nothing else. \<open>log_line\<close> and \<open>error_line\<close> are the lines of the
  two console calls.
\<close>

definition cache_put ::
  "bool \<Rightarrow> string \<Rightarrow> TranscriptEntry list \<Rightarrow> nat option \<Rightarrow> nat \<Rightarrow> nat \<Rightarrow> world \<Rightarrow> world" where
  "cache_put kv videoId v ttl log_line error_line w =
     (if kv then
        (case kv_put videoId v ttl w of
           (Returns _, w') \<Rightarrow> emit (Console LOG log_line) w'
         | (Throws, w') \<Rightarrow> emit (Console ERROR error_line) w')
      else w)"

text \<open>
  Step 1, lines 61 to 76: the cache lookup. \<open>Some\<close> is a hit; \<open>None\<close> is a miss, a read that
  threw, or no binding.
\<close>

definition check_cache :: "bool \<Rightarrow> string \<Rightarrow> world \<Rightarrow> TranscriptEntry list option \<times> world" where
  "check_cache kv videoId w =
     (if kv then
        (case kv_get videoId w of
           (Returns (Some cachedTranscript), w') \<Rightarrow> (Some cachedTranscript, emit (Console LOG 66) w')
         | (Returns None, w') \<Rightarrow> (None, emit (Console LOG 69) w')
         | (Throws, w') \<Rightarrow> (None, emit (Console ERROR 71) w'))
      else (None, emit (Console WARN 75) w))"

text \<open>
  Lines 93 to 179, the body of the \<open>try\<close> after \<open>fetch\<close> has resolved. \<open>Throws\<close> is an
  exception that reaches the \<open>catch\<close> of line 181.
\<close>

definition handle_response ::
  "bool \<Rightarrow> string \<Rightarrow> Response \<Rightarrow> world \<Rightarrow> TranscriptEntry list option outcome \<times> world" where
  "handle_response kv videoId response w =
     (if \<not> ok response then
        (case body_text response of
           None \<Rightarrow> (Throws, emit ReadText w)
         | Some errorBody \<Rightarrow>
             (let w1 = emit (Console ERROR 95) (emit ReadText w) in
              if status response = 404 then
                (Returns (Some []),
                 cache_put kv videoId [] (Some 3600) 105 107 (emit (Console LOG 99) w1))
              else (Returns None, w1)))
      else
        (let contentType = content_type response in
         if \<not> truthy contentType
            \<or> \<not> includes_str (case contentType of Some c \<Rightarrow> c | None \<Rightarrow> []) ''application/json''
         then
           (let w1 = emit ReadText (emit (Console ERROR 119) w) in
            case body_text response of
              None \<Rightarrow> (Throws, w1)
            | Some responseText \<Rightarrow> (Returns None, emit (Console ERROR 121) w1))
         else
           (case body_json response of
              None \<Rightarrow> (Throws, emit ReadJson w)
            | Some data \<Rightarrow>
                (let w1 = emit ReadJson w in
                 if truthy (error data) then (Returns None, emit (Console ERROR 129) w1)
                 else
                   (case transcript data of
                      None \<Rightarrow>
                        (Returns (Some []),
                         cache_put kv videoId [] (Some 3600) 143 145 (emit (Console LOG 138) w1))
                    | Some ts \<Rightarrow>
                        if length ts = 0 then
                          (Returns (Some []),
                           cache_put kv videoId [] (Some 3600) 157 159 (emit (Console LOG 152) w1))
                        else
                          (Returns (Some ts), cache_put kv videoId ts None 172 174 w1))))))"

text \<open>
  Line 80: the URL of the request. It stands before the \<open>try\<close> of line 83, so the
  \<open>URIError\<close> of \<open>encodeURIComponent\<close> is not caught.
\<close>

definition apiUrl :: "string \<Rightarrow> string outcome" where
  "apiUrl videoId =
     (case encodeURIComponent videoId of
        Throws \<Rightarrow> Throws
      | Returns encoded \<Rightarrow>
          Returns (''https://api.supadata.ai/v1/youtube/transcript?videoId='' @ encoded))"

definition request_headers :: "string \<Rightarrow> (string \<times> string) list" where
  "request_headers apiKey = [(''X-API-Key'', apiKey), (''Accept'', ''application/json'')]"

text \<open>
  Lines 81 to 185: the request to the URL of line 80, the response handling, and the
  \<open>catch\<close> that turns every exception of the \<open>try\<close> into the failure marker \<open>null\<close>.
\<close>

definition fetch_transcript ::
  "bool \<Rightarrow> string \<Rightarrow> string \<Rightarrow> string \<Rightarrow> world \<Rightarrow> TranscriptEntry list option \<times> world" where
  "fetch_transcript kv apiKey videoId url w =
     (case http_get url (request_headers apiKey) (emit (Console LOG 81) w) of
        (Rejected, w2) \<Rightarrow> (None, emit (Console ERROR 183) w2)
      | (Resolved response, w2) \<Rightarrow>
          (case handle_response kv videoId response w2 of
             (Throws, w3) \<Rightarrow> (None, emit (Console ERROR 183) w3)
           | (Returns result, w3) \<Rightarrow> (result, w3)))"

text \<open>
  The resolver. It returns \<open>Some\<close> of a sequence of entries, or \<open>None\<close> for the failure
  marker \<open>null\<close>; \<open>Throws\<close> is the rejection of its promise, by the \<open>URIError\<close> of line 80.
\<close>

definition getTranscript ::
  "string \<Rightarrow> world \<Rightarrow> TranscriptEntry list option outcome \<times> world" where
  "getTranscript videoId w =
     (case getTranscriptCacheKV w of
        (kv, w1) \<Rightarrow>
          (case SUPADATA_API_KEY w1 of
             None \<Rightarrow> (Returns None, emit (Console ERROR 55) w1)
           | Some apiKey \<Rightarrow>
               if apiKey = [] then (Returns None, emit (Console ERROR 55) w1)
               else
                 (case check_cache (kv \<noteq> None) videoId w1 of
                    (Some cachedTranscript, w2) \<Rightarrow> (Returns (Some cachedTranscript), w2)
                  | (None, w2) \<Rightarrow>
                      (case apiUrl videoId of
                         Throws \<Rightarrow> (Throws, w2)
                       | Returns url \<Rightarrow>
                           (case fetch_transcript (kv \<noteq> None) apiKey videoId url w2 of
                              (result, w3) \<Rightarrow> (Returns result, w3))))))"

section \<open>Observations on the effects\<close>

text \<open>The outbound HTTP calls and the cache writes among the effects.\<close>

fun is_http :: "event \<Rightarrow> bool" where
  "is_http (HttpGet _ _) = True"
| "is_http _ = False"

fun is_put :: "event \<Rightarrow> bool" where
  "is_put (KvPut _ _ _) = True"
| "is_put _ = False"

text \<open>
  The effects of one invocation: what it appends to the effects so far. Among them, its
  outbound HTTP calls and its cache writes.
\<close>

definition new_effects :: "string \<Rightarrow> world \<Rightarrow> event list" where
  "new_effects videoId w = drop (length (effects w)) (effects (snd (getTranscript videoId w)))"

definition http_calls :: "string \<Rightarrow> world \<Rightarrow> event list" where
  "http_calls videoId w = filter is_http (new_effects videoId w)"

definition cache_writes :: "string \<Rightarrow> world \<Rightarrow> event list" where
  "cache_writes videoId w = filter is_put (new_effects videoId w)"

text \<open>The cache reads and the parses of a JSON body among the effects.\<close>

fun is_get :: "event \<Rightarrow> bool" where
  "is_get (KvGet _) = True"
| "is_get _ = False"

fun is_parse :: "event \<Rightarrow> bool" where
  "is_parse ReadJson = True"
| "is_parse _ = False"

section \<open>Vocabulary of the properties\<close>

text \<open>
  What the cache lookup of an invocation can yield: the cached sequence on a hit, and
  \<open>None\<close> when the binding is missing, the read throws, or the key is absent.
\<close>

definition cached :: "string \<Rightarrow> world \<Rightarrow> TranscriptEntry list option" where
  "cached v w =
     (case TRANSCRIPT_CACHE w of
        None \<Rightarrow> None
      | Some c \<Rightarrow> if get_throws c then None else map_option fst (store c v))"

text \<open>The world as lines 51 to 76 leave it when the credential is configured.\<close>

definition after_lookup :: "string \<Rightarrow> world \<Rightarrow> world" where
  "after_lookup v w =
     snd (check_cache (TRANSCRIPT_CACHE w \<noteq> None) v
            (if TRANSCRIPT_CACHE w = None then emit (Console WARN 46) w else w))"

text \<open>
  A response that passes the test of line 118: the \<open>content-type\<close> header is present and
  contains \<open>application/json\<close>.
\<close>

definition json_content_type :: "Response \<Rightarrow> bool" where
  "json_content_type r =
     (case content_type r of None \<Rightarrow> False | Some c \<Rightarrow> includes_str c ''application/json'')"

section \<open>Sample environments\<close>

definition empty_cache :: KVNamespace where
  "empty_cache = \<lparr>store = Map.empty, get_throws = False, put_throws = False\<rparr>"

definition cache_holding :: "string \<Rightarrow> TranscriptEntry list \<Rightarrow> nat option \<Rightarrow> KVNamespace" where
  "cache_holding key v ttl =
     \<lparr>store = Map.empty(key \<mapsto> (v, ttl)), get_throws = False, put_throws = False\<rparr>"

definition sample_world :: "string option \<Rightarrow> KVNamespace option \<Rightarrow> fetch_result \<Rightarrow> world" where
  "sample_world key kv res =
     \<lparr>SUPADATA_API_KEY = key, TRANSCRIPT_CACHE = kv, remote = (\<lambda>url headers. res), effects = []\<rparr>"

definition hello :: "TranscriptEntry list" where
  "hello = [\<lparr>offset = 0, text = ''Hello''\<rparr>]"

text \<open>
  A response with status 200, a JSON content type and the given parsed body; and a 404
  response.
\<close>

definition json_response :: "SupadataTranscriptResponse \<Rightarrow> Response" where
  "json_response d =
     \<lparr>status = 200, content_type = Some ''application/json'', body_text = None, body_json = Some d\<rparr>"

definition not_found_response :: Response where
  "not_found_response =
     \<lparr>status = 404, content_type = Some ''text/plain'', body_text = Some ''Not Found'', body_json = None\<rparr>"


text \<open>
  The URL of the request for an identifier of letters and digits, and the string of the
  single code unit \<open>D800\<close>, a surrogate without its pair.
\<close>

definition url_of :: "string \<Rightarrow> string" where
  "url_of v = ''https://api.supadata.ai/v1/youtube/transcript?videoId='' @ v"

definition lone_surrogate :: string where
  "lone_surrogate = [CHR 0xED, CHR 0xA0, CHR 0x80]"

section \<open>The \<open>Date\<close> primitives the page uses\<close>

text \<open>
  \<open>new Date(offset).toISOString().substr(14, 5)\<close> of line 76, after the ECMAScript
  definitions of time values. A time value is a number of milliseconds since the epoch;
  \<open>div\<close> and \<open>mod\<close> on integers are the floor and the modulo of those definitions.
\<close>

definition msPerDay :: int where
  "msPerDay = 86400000"

definition Day :: "int \<Rightarrow> int" where
  "Day t = t div msPerDay"

definition DaysInYear :: "int \<Rightarrow> int" where
  "DaysInYear y =
     (if y mod 4 \<noteq> 0 then 365 else if y mod 100 \<noteq> 0 then 366
      else if y mod 400 \<noteq> 0 then 365 else 366)"

definition DayFromYear :: "int \<Rightarrow> int" where
  "DayFromYear y =
     365 * (y - 1970) + (y - 1969) div 4 - (y - 1901) div 100 + (y - 1601) div 400"

text \<open>
  \<open>YearFromTime(t)\<close> is the largest year \<open>y\<close> with \<open>DayFromYear(y) \<le> Day(t)\<close>. It is computed
  from the mean length of a year, 146097 days in 400 years, which is off by one year at
  most.
\<close>

definition YearFromTime :: "int \<Rightarrow> int" where
  "YearFromTime t =
     (let d = Day t; y = 1970 + (400 * d) div 146097
      in if DayFromYear (y + 1) \<le> d then y + 1
         else if DayFromYear y \<le> d then y
         else y - 1)"

definition InLeapYear :: "int \<Rightarrow> int" where
  "InLeapYear t = (if DaysInYear (YearFromTime t) = 366 then 1 else 0)"

definition DayWithinYear :: "int \<Rightarrow> int" where
  "DayWithinYear t = Day t - DayFromYear (YearFromTime t)"

definition MonthFromTime :: "int \<Rightarrow> int" where
  "MonthFromTime t =
     (let d = DayWithinYear t; l = InLeapYear t
      in if d < 31 then 0
         else if d < 59 + l then 1
         else if d < 90 + l then 2
         else if d < 120 + l then 3
         else if d < 151 + l then 4
         else if d < 181 + l then 5
         else if d < 212 + l then 6
         else if d < 243 + l then 7
         else if d < 273 + l then 8
         else if d < 304 + l then 9
         else if d < 334 + l then 10
         else 11)"

definition DateFromTime :: "int \<Rightarrow> int" where
  "DateFromTime t =
     (let d = DayWithinYear t; l = InLeapYear t; m = MonthFromTime t
      in if m = 0 then d + 1
         else if m = 1 then d - 30
         else if m = 2 then d - 58 - l
         else if m = 3 then d - 89 - l
         else if m = 4 then d - 119 - l
         else if m = 5 then d - 150 - l
         else if m = 6 then d - 180 - l
         else if m = 7 then d - 211 - l
         else if m = 8 then d - 242 - l
         else if m = 9 then d - 272 - l
         else if m = 10 then d - 303 - l
         else d - 333 - l)"

definition HourFromTime :: "int \<Rightarrow> int" where
  "HourFromTime t = (t div 3600000) mod 24"

definition MinFromTime :: "int \<Rightarrow> int" where
  "MinFromTime t = (t div 60000) mod 60"

definition SecFromTime :: "int \<Rightarrow> int" where
  "SecFromTime t = (t div 1000) mod 60"

definition msFromTime :: "int \<Rightarrow> int" where
  "msFromTime t = t mod 1000"

text \<open>
  The decimal digits of a natural number, and \<open>ToZeroPaddedDecimalString\<close>: the digits,
  with zeros in front up to a minimal length.
\<close>

definition digit :: "nat \<Rightarrow> char" where
  "digit n = ''0123456789'' ! (n mod 10)"

fun decimal :: "nat \<Rightarrow> string" where
  "decimal n = (if n < 10 then [digit n] else decimal (n div 10) @ [digit n])"

definition ToZeroPaddedDecimalString :: "int \<Rightarrow> nat \<Rightarrow> string" where
  "ToZeroPaddedDecimalString n minLength =
     replicate (minLength - length (decimal (nat n))) (CHR ''0'') @ decimal (nat n)"

text \<open>
  \<open>new Date(value)\<close> on a number keeps the time value when its magnitude is at most
  8.64e15, and is an invalid date otherwise (\<open>TimeClip\<close>). \<open>toISOString\<close> throws a
  \<open>RangeError\<close> on an invalid date; otherwise the year is printed with four digits when
  it is between 0 and 9999, and with a sign and six digits when it is not.
\<close>

definition TimeClip :: "int \<Rightarrow> int option" where
  "TimeClip t = (if \<bar>t\<bar> > 8640000000000000 then None else Some t)"

definition toISOString :: "int option \<Rightarrow> string outcome" where
  "toISOString tv =
     (case tv of
        None \<Rightarrow> Throws
      | Some t \<Rightarrow>
          (let yv = YearFromTime t;
               year = (if 0 \<le> yv \<and> yv \<le> 9999 then ToZeroPaddedDecimalString yv 4
                       else (if yv > 0 then ''+'' else ''-'') @ ToZeroPaddedDecimalString \<bar>yv\<bar> 6)
           in Returns (year @ ''-'' @ ToZeroPaddedDecimalString (MonthFromTime t + 1) 2
                 @ ''-'' @ ToZeroPaddedDecimalString (DateFromTime t) 2
                 @ ''T'' @ ToZeroPaddedDecimalString (HourFromTime t) 2
                 @ '':'' @ ToZeroPaddedDecimalString (MinFromTime t) 2
                 @ '':'' @ ToZeroPaddedDecimalString (SecFromTime t) 2
                 @ ''.'' @ ToZeroPaddedDecimalString (msFromTime t) 3 @ ''Z'')))"

text \<open>\<open>s.substr(start, length)\<close> for a start that is not negative.\<close>

definition substr :: "string \<Rightarrow> nat \<Rightarrow> nat \<Rightarrow> string" where
  "substr s start len = take len (drop start s)"

section \<open>The page: \<open>WatchPage\<close> (\<open>src/unnamed/part_000\<close>, lines 29 to 84)\<close>

text \<open>
  The value of a query parameter, of type \<open>string | string[] | undefined\<close>; \<open>searchParams\<close>
  maps a name to its value. The page is a tree of elements with a tag, the \<open>key\<close> and
  \<open>className\<close> attributes when given, and children; text and interpolated values are
  text nodes.
\<close>

datatype query_value = Undefined | Str string | StrArray "string list"

datatype jsx = Text string | Element string "nat option" "string option" "jsx list"

text \<open>The parameters of a request whose only parameter is \<open>v\<close>.\<close>

definition query_v :: "query_value \<Rightarrow> string \<Rightarrow> query_value" where
  "query_v q name = (if name = ''v'' then q else Undefined)"

text \<open>Lines 73 to 79: one entry, with the time label and the text.\<close>

definition render_entry :: "TranscriptEntry \<Rightarrow> nat \<Rightarrow> jsx outcome" where
  "render_entry entry index =
     (case toISOString (TimeClip (offset entry)) of
        Throws \<Rightarrow> Throws
      | Returns isoString \<Rightarrow>
          Returns (Element ''div'' (Some index) (Some ''p-2 border rounded bg-gray-50'')
                    [Element ''span'' None (Some ''text-sm text-gray-500 mr-2'') [Text (substr isoString 14 5)],
                     Element ''span'' None None [Text (text entry)]]))"

text \<open>
  \<open>transcriptData.map(...)\<close> of line 72, from a starting index: the entries in order, and
  an exception of the callback ends the whole call.
\<close>

fun render_entries :: "TranscriptEntry list \<Rightarrow> nat \<Rightarrow> jsx list outcome" where
  "render_entries [] index = Returns []"
| "render_entries (entry # rest) index =
     (case render_entry entry index of
        Throws \<Rightarrow> Throws
      | Returns row \<Rightarrow>
          (case render_entries rest (Suc index) of
             Throws \<Rightarrow> Throws
           | Returns rows \<Rightarrow> Returns (row # rows)))"

text \<open>The four pages, lines 34 to 39, 47 to 52, 57 to 63 and 68 to 83.\<close>

definition missing_page :: jsx where
  "missing_page =
     Element ''main'' None (Some ''container mx-auto p-4'')
       [Element ''h1'' None (Some ''text-2xl font-bold mb-4'') [Text ''Missing Video ID''],
        Element ''p'' None None
          [Text ''Please provide a video ID in the URL, like: /watch?v=VIDEO_ID'']]"

definition error_page :: "string \<Rightarrow> jsx" where
  "error_page videoId =
     Element ''main'' None (Some ''container mx-auto p-4'')
       [Element ''h1'' None (Some ''text-2xl font-bold mb-4'') [Text ''Error''],
        Element ''p'' None None
          [Text ''Could not fetch transcript for video ID: '', Text videoId,
           Text ''. An error occurred during fetching or processing.'']]"

definition no_transcript_page :: "string \<Rightarrow> jsx" where
  "no_transcript_page videoId =
     Element ''main'' None (Some ''container mx-auto p-4'')
       [Element ''h1'' None (Some ''text-2xl font-bold mb-4'') [Text ''No Transcript Available''],
        Element ''p'' None None
          [Text ''No transcript could be found for video ID: '', Text videoId, Text ''.''],
        Element ''p'' None None
          [Text ''This might be because the video ID is invalid, the video is private, or it simply doesn't have captions/transcript.'']]"

definition transcript_page :: "string \<Rightarrow> jsx list \<Rightarrow> jsx" where
  "transcript_page videoId rows =
     Element ''main'' None (Some ''container mx-auto p-4'')
       [Element ''h1'' None (Some ''text-2xl font-bold mb-4'')
          [Text ''Transcript for Video ID: '', Text videoId],
        Element ''div'' None (Some ''space-y-2'') rows]"

text \<open>
  The page component. The identifier is the parameter \<open>v\<close>; it is missing when it is not a
  string or is the empty string (line 33). \<open>Throws\<close> is an exception of the rendering: a
  rejection of the resolver at line 43, or a \<open>RangeError\<close> of \<open>toISOString\<close> at line 76.
\<close>

definition WatchPage :: "(string \<Rightarrow> query_value) \<Rightarrow> world \<Rightarrow> jsx outcome \<times> world" where
  "WatchPage searchParams w =
     (case searchParams ''v'' of
        Str videoId \<Rightarrow>
          if videoId = [] then (Returns missing_page, w)
          else
            (case getTranscript videoId w of
               (Throws, w') \<Rightarrow> (Throws, w')
             | (Returns None, w') \<Rightarrow> (Returns (error_page videoId), w')
             | (Returns (Some transcriptData), w') \<Rightarrow>
                 if length transcriptData = 0 then (Returns (no_transcript_page videoId), w')
                 else
                   (case render_entries transcriptData 0 of
                      Throws \<Rightarrow> (Throws, w')
                    | Returns rows \<Rightarrow> (Returns (transcript_page videoId rows), w')))
      | _ \<Rightarrow> (Returns missing_page, w))"

text \<open>The text of a page: its text nodes, in document order.\<close>

fun text_content :: "jsx \<Rightarrow> string" where
  "text_content (Text s) = s"
| "text_content (Element tag key className children) = concat (map text_content children)"

text \<open>The label the claim describes: the minutes and the seconds of an offset.\<close>

definition minutes_seconds :: "int \<Rightarrow> string" where
  "minutes_seconds t =
     ToZeroPaddedDecimalString ((t div 60000) mod 60) 2 @ '':''
     @ ToZeroPaddedDecimalString ((t div 1000) mod 60) 2"

declare decimal.simps [simp del]

section \<open>Lemmas on the resolver\<close>

lemma emit_simps [simp]:
  "effects (emit e w) = effects w @ [e]"
  "TRANSCRIPT_CACHE (emit e w) = TRANSCRIPT_CACHE w"
  "SUPADATA_API_KEY (emit e w) = SUPADATA_API_KEY w"
  "remote (emit e w) = remote w"
  by (simp_all add: emit_def)

lemma cache_put_env [simp]:
  "SUPADATA_API_KEY (cache_put kv v val ttl d f w) = SUPADATA_API_KEY w"
  "remote (cache_put kv v val ttl d f w) = remote w"
  by (simp_all add: cache_put_def kv_put_def split: option.splits)

lemma cache_put_http [simp]:
  "filter is_http (effects (cache_put kv v val ttl d f w)) = filter is_http (effects w)"
  by (simp add: cache_put_def kv_put_def split: option.splits)

lemma cache_put_puts [simp]:
  "filter is_put (effects (cache_put kv v val ttl d f w)) =
     filter is_put (effects w) @ (if kv \<and> TRANSCRIPT_CACHE w \<noteq> None then [KvPut v val ttl] else [])"
  by (simp add: cache_put_def kv_put_def split: option.splits)

lemma cache_put_prefix [simp]:
  "prefix (effects w) (effects (cache_put kv v val ttl d f w))"
  by (simp add: cache_put_def kv_put_def split: option.splits)

lemma handle_response_result:
  "fst (handle_response kv v r w) = fst (handle_response kv' v' r w')"
  by (simp add: handle_response_def Let_def split: option.splits)

lemma handle_response_env [simp]:
  "SUPADATA_API_KEY (snd (handle_response kv v r w)) = SUPADATA_API_KEY w"
  "remote (snd (handle_response kv v r w)) = remote w"
  by (simp_all add: handle_response_def Let_def split: option.splits)

lemma handle_response_http:
  "filter is_http (effects (snd (handle_response kv v r w))) = filter is_http (effects w)"
  by (simp add: handle_response_def Let_def split: option.splits)

lemma handle_response_puts:
  "filter is_put (effects (snd (handle_response kv v r w))) = filter is_put (effects w) @
     (case fst (handle_response kv v r w) of
        Returns (Some ts) \<Rightarrow>
          if kv \<and> TRANSCRIPT_CACHE w \<noteq> None
          then [KvPut v ts (if ts = [] then Some 3600 else None)] else []
      | _ \<Rightarrow> [])"
  by (auto simp: handle_response_def Let_def split: option.splits)

lemma prefix_snoc [simp]: "prefix xs ys \<Longrightarrow> prefix xs (ys @ [y])"
  by (auto simp: prefix_def)

lemma handle_response_prefix:
  "prefix (effects w) (effects (snd (handle_response kv v r w)))"
  by (auto simp: handle_response_def Let_def intro!: prefix_order.trans[OF _ cache_put_prefix] split: option.splits)

lemma check_cache_env [simp]:
  "SUPADATA_API_KEY (snd (check_cache kv v w)) = SUPADATA_API_KEY w"
  "remote (snd (check_cache kv v w)) = remote w"
  "TRANSCRIPT_CACHE (snd (check_cache kv v w)) = TRANSCRIPT_CACHE w"
  by (simp_all add: check_cache_def kv_get_def split: option.splits)

lemma check_cache_http [simp]:
  "filter is_http (effects (snd (check_cache kv v w))) = filter is_http (effects w)"
  by (simp add: check_cache_def kv_get_def split: option.splits)

lemma check_cache_puts [simp]:
  "filter is_put (effects (snd (check_cache kv v w))) = filter is_put (effects w)"
  by (simp add: check_cache_def kv_get_def split: option.splits)

lemma check_cache_prefix [simp]:
  "prefix (effects w) (effects (snd (check_cache kv v w)))"
  by (simp add: check_cache_def kv_get_def split: option.splits)

lemma fetch_transcript_unfold:
  "fetch_transcript kv k v u w =
     (case remote w u (request_headers k) of
        Rejected \<Rightarrow>
          (None, emit (Console ERROR 183)
                   (emit (HttpGet u (request_headers k)) (emit (Console LOG 81) w)))
      | Resolved r \<Rightarrow>
          (let p = handle_response kv v r
                     (emit (HttpGet u (request_headers k)) (emit (Console LOG 81) w))
           in case fst p of
                Throws \<Rightarrow> (None, emit (Console ERROR 183) (snd p))
              | Returns res \<Rightarrow> (res, snd p)))"
  by (simp add: fetch_transcript_def http_get_def split: fetch_result.split prod.split outcome.split)

lemma fetch_transcript_result:
  "fst (fetch_transcript kv k v u w) =
     (case remote w u (request_headers k) of
        Rejected \<Rightarrow> None
      | Resolved r \<Rightarrow> (case fst (handle_response kv v r w) of Throws \<Rightarrow> None | Returns res \<Rightarrow> res))"
  by (simp add: fetch_transcript_unfold Let_def
        handle_response_result [of kv v _ "emit _ (emit _ w)" kv v w]
        split: fetch_result.split outcome.split)

lemma fetch_transcript_env [simp]:
  "SUPADATA_API_KEY (snd (fetch_transcript kv k v u w)) = SUPADATA_API_KEY w"
  "remote (snd (fetch_transcript kv k v u w)) = remote w"
  by (simp_all add: fetch_transcript_unfold Let_def split: fetch_result.split outcome.split)

lemma fetch_transcript_http:
  "filter is_http (effects (snd (fetch_transcript kv k v u w))) =
     filter is_http (effects w) @ [HttpGet u (request_headers k)]"
  by (simp add: fetch_transcript_unfold Let_def handle_response_http
        split: fetch_result.split outcome.split)

lemma fetch_transcript_puts:
  "filter is_put (effects (snd (fetch_transcript kv k v u w))) = filter is_put (effects w) @
     (case fst (fetch_transcript kv k v u w) of
        Some ts \<Rightarrow>
          if kv \<and> TRANSCRIPT_CACHE w \<noteq> None
          then [KvPut v ts (if ts = [] then Some 3600 else None)] else []
      | None \<Rightarrow> [])"
  by (simp add: fetch_transcript_unfold Let_def handle_response_puts
        split: fetch_result.split outcome.split option.split)

lemma fetch_transcript_prefix:
  "prefix (effects w) (effects (snd (fetch_transcript kv k v u w)))"
  by (auto simp: fetch_transcript_unfold Let_def split: fetch_result.split outcome.split
        intro!: prefix_snoc intro: prefix_order.trans [OF _ handle_response_prefix])

lemma getTranscript_unfold:
  "getTranscript v w =
     (if \<not> truthy (SUPADATA_API_KEY w) then
        (Returns None, emit (Console ERROR 55)
                 (if TRANSCRIPT_CACHE w = None then emit (Console WARN 46) w else w))
      else case cached v w of
             Some c \<Rightarrow> (Returns (Some c), after_lookup v w)
           | None \<Rightarrow>
               (case apiUrl v of
                  Throws \<Rightarrow> (Throws, after_lookup v w)
                | Returns u \<Rightarrow>
                    (Returns (fst (fetch_transcript (TRANSCRIPT_CACHE w \<noteq> None)
                       (case SUPADATA_API_KEY w of Some k \<Rightarrow> k | None \<Rightarrow> []) v u (after_lookup v w))),
                     snd (fetch_transcript (TRANSCRIPT_CACHE w \<noteq> None)
                       (case SUPADATA_API_KEY w of Some k \<Rightarrow> k | None \<Rightarrow> []) v u (after_lookup v w)))))"
  by (auto simp: getTranscript_def getTranscriptCacheKV_def truthy_def cached_def after_lookup_def
        check_cache_def kv_get_def split: option.split prod.split outcome.split)

lemma after_lookup_env [simp]:
  "SUPADATA_API_KEY (after_lookup v w) = SUPADATA_API_KEY w"
  "remote (after_lookup v w) = remote w"
  "TRANSCRIPT_CACHE (after_lookup v w) = TRANSCRIPT_CACHE w"
  by (simp_all add: after_lookup_def)

lemma after_lookup_effects [simp]:
  "filter is_http (effects (after_lookup v w)) = filter is_http (effects w)"
  "filter is_put (effects (after_lookup v w)) = filter is_put (effects w)"
  by (simp_all add: after_lookup_def)

lemma after_lookup_prefix [simp]: "prefix (effects w) (effects (after_lookup v w))"
  unfolding after_lookup_def
  by (rule prefix_order.trans [OF _ check_cache_prefix]) simp

lemma getTranscript_prefix: "prefix (effects w) (effects (snd (getTranscript v w)))"
  by (auto simp: getTranscript_unfold split: option.split outcome.split
        intro: prefix_order.trans [OF after_lookup_prefix fetch_transcript_prefix])

lemma effects_getTranscript:
  "effects (snd (getTranscript v w)) = effects w @ new_effects v w"
  using getTranscript_prefix [of w v] by (auto simp: new_effects_def prefix_def)

lemma filter_new_effects:
  assumes "filter P (effects (snd (getTranscript v w))) = filter P (effects w) @ es"
  shows "filter P (new_effects v w) = es"
  using assms by (simp add: effects_getTranscript)

lemma getTranscript_result:
  "fst (getTranscript v w) =
     (if \<not> truthy (SUPADATA_API_KEY w) then Returns None
      else case cached v w of
             Some c \<Rightarrow> Returns (Some c)
           | None \<Rightarrow>
               (case apiUrl v of
                  Throws \<Rightarrow> Throws
                | Returns u \<Rightarrow>
                    Returns
                      (case remote w u (request_headers (the (SUPADATA_API_KEY w))) of
                         Rejected \<Rightarrow> None
                       | Resolved r \<Rightarrow>
                           (case fst (handle_response False v r w) of
                              Throws \<Rightarrow> None | Returns res \<Rightarrow> res))))"
  by (auto simp: getTranscript_unfold fetch_transcript_result truthy_def
        handle_response_result [of _ v _ "after_lookup v w" False v w]
        split: option.split fetch_result.split outcome.split)

lemma getTranscript_http:
  "http_calls v w =
     (if truthy (SUPADATA_API_KEY w) \<and> cached v w = None
      then (case apiUrl v of
              Throws \<Rightarrow> []
            | Returns u \<Rightarrow> [HttpGet u (request_headers (the (SUPADATA_API_KEY w)))])
      else [])"
  unfolding http_calls_def
  by (rule filter_new_effects)
     (auto simp: getTranscript_unfold fetch_transcript_http truthy_def
        split: option.split outcome.split)

lemma getTranscript_puts:
  "cache_writes v w =
     (if truthy (SUPADATA_API_KEY w) \<and> cached v w = None \<and> TRANSCRIPT_CACHE w \<noteq> None
      then (case fst (getTranscript v w) of
              Returns (Some ts) \<Rightarrow> [KvPut v ts (if ts = [] then Some 3600 else None)]
            | _ \<Rightarrow> [])
      else [])"
  unfolding cache_writes_def
  by (rule filter_new_effects)
     (auto simp: getTranscript_unfold fetch_transcript_puts truthy_def
        split: option.split outcome.split)

lemma includes_str_nonempty: "includes_str c (x # xs) \<Longrightarrow> c \<noteq> []"
  by (cases c) simp_all

lemma cache_put_other [simp]:
  "filter is_get (effects (cache_put kv v val ttl d f w)) = filter is_get (effects w)"
  "filter is_parse (effects (cache_put kv v val ttl d f w)) = filter is_parse (effects w)"
  by (simp_all add: cache_put_def kv_put_def split: option.splits)

lemma cache_put_store [simp]:
  "TRANSCRIPT_CACHE (cache_put kv v val ttl d f w) =
     (case TRANSCRIPT_CACHE w of
        None \<Rightarrow> None
      | Some c \<Rightarrow> if kv \<and> \<not> put_throws c then Some (c\<lparr>store := (store c)(v \<mapsto> (val, ttl))\<rparr>)
                  else Some c)"
  by (simp add: cache_put_def kv_put_def split: option.splits)

lemma handle_response_gets:
  "filter is_get (effects (snd (handle_response kv v r w))) = filter is_get (effects w)"
  by (simp add: handle_response_def Let_def split: option.splits)

lemma handle_response_parse:
  "filter is_parse (effects (snd (handle_response kv v r w))) =
     filter is_parse (effects w) @ (if ok r \<and> json_content_type r then [ReadJson] else [])"
  by (auto simp: handle_response_def Let_def json_content_type_def truthy_def
        dest: includes_str_nonempty split: option.splits)

lemma handle_response_store:
  "TRANSCRIPT_CACHE (snd (handle_response kv v r w)) =
     (case TRANSCRIPT_CACHE w of
        None \<Rightarrow> None
      | Some c \<Rightarrow>
          (case fst (handle_response kv v r w) of
             Returns (Some ts) \<Rightarrow>
               if kv \<and> \<not> put_throws c
               then Some (c\<lparr>store := (store c)(v \<mapsto> (ts, if ts = [] then Some 3600 else None))\<rparr>)
               else Some c
           | _ \<Rightarrow> Some c))"
  by (auto simp: handle_response_def Let_def split: option.splits)

lemma check_cache_gets:
  "filter is_get (effects (snd (check_cache kv v w))) =
     filter is_get (effects w) @ (if kv \<and> TRANSCRIPT_CACHE w \<noteq> None then [KvGet v] else [])"
  by (simp add: check_cache_def kv_get_def split: option.splits)

lemma check_cache_parse [simp]:
  "filter is_parse (effects (snd (check_cache kv v w))) = filter is_parse (effects w)"
  by (simp add: check_cache_def kv_get_def split: option.splits)

lemma fetch_transcript_gets:
  "filter is_get (effects (snd (fetch_transcript kv k v u w))) = filter is_get (effects w)"
  by (simp add: fetch_transcript_unfold Let_def handle_response_gets
        split: fetch_result.split outcome.split)

lemma fetch_transcript_parse:
  "filter is_parse (effects (snd (fetch_transcript kv k v u w))) = filter is_parse (effects w) @
     (case remote w u (request_headers k) of
        Rejected \<Rightarrow> []
      | Resolved r \<Rightarrow> if ok r \<and> json_content_type r then [ReadJson] else [])"
  by (simp add: fetch_transcript_unfold Let_def handle_response_parse
        split: fetch_result.split outcome.split)

lemma fetch_transcript_store:
  "TRANSCRIPT_CACHE (snd (fetch_transcript kv k v u w)) =
     (case TRANSCRIPT_CACHE w of
        None \<Rightarrow> None
      | Some c \<Rightarrow>
          (case fst (fetch_transcript kv k v u w) of
             Some ts \<Rightarrow>
               if kv \<and> \<not> put_throws c
               then Some (c\<lparr>store := (store c)(v \<mapsto> (ts, if ts = [] then Some 3600 else None))\<rparr>)
               else Some c
           | None \<Rightarrow> Some c))"
  by (simp add: fetch_transcript_unfold Let_def handle_response_store
        split: fetch_result.split outcome.split option.split)

lemma getTranscript_gets:
  "filter is_get (new_effects v w) =
     (if truthy (SUPADATA_API_KEY w) \<and> TRANSCRIPT_CACHE w \<noteq> None then [KvGet v] else [])"
  by (rule filter_new_effects)
     (auto simp: getTranscript_unfold fetch_transcript_gets after_lookup_def check_cache_gets
        split: option.split outcome.split)

lemma getTranscript_parse:
  "filter is_parse (new_effects v w) =
     (if truthy (SUPADATA_API_KEY w) \<and> cached v w = None
      then (case apiUrl v of
              Throws \<Rightarrow> []
            | Returns u \<Rightarrow>
                (case remote w u (request_headers (the (SUPADATA_API_KEY w))) of
                   Rejected \<Rightarrow> []
                 | Resolved r \<Rightarrow> if ok r \<and> json_content_type r then [ReadJson] else []))
      else [])"
  by (rule filter_new_effects)
     (auto simp: getTranscript_unfold fetch_transcript_parse after_lookup_def truthy_def
        split: option.split outcome.split)

lemma getTranscript_store:
  "TRANSCRIPT_CACHE (snd (getTranscript v w)) =
     (case TRANSCRIPT_CACHE w of
        None \<Rightarrow> None
      | Some c \<Rightarrow>
          (case cache_writes v w of
             [KvPut k val ttl] \<Rightarrow>
               if put_throws c then Some c else Some (c\<lparr>store := (store c)(k \<mapsto> (val, ttl))\<rparr>)
           | _ \<Rightarrow> Some c))"
  by (auto simp: getTranscript_puts getTranscript_unfold fetch_transcript_store
        split: option.split outcome.split)
lemma sample_world_simps [simp]:
  "SUPADATA_API_KEY (sample_world key kv res) = key"
  "TRANSCRIPT_CACHE (sample_world key kv res) = kv"
  "remote (sample_world key kv res) url headers = res"
  "effects (sample_world key kv res) = []"
  by (simp_all add: sample_world_def)

lemma cache_holding_simps [simp]:
  "store (cache_holding key v ttl) key = Some (v, ttl)"
  "get_throws (cache_holding key v ttl) = False"
  "put_throws (cache_holding key v ttl) = False"
  by (simp_all add: cache_holding_def)

lemma json_response_simps [simp]:
  "ok (json_response d)" "json_content_type (json_response d)"
  "body_json (json_response d) = Some d" "status (json_response d) = 200"
  "content_type (json_response d) = Some ''application/json''"
  by (simp_all add: json_response_def ok_def json_content_type_def)

lemma not_found_response_simps [simp]:
  "\<not> ok not_found_response" "status not_found_response = 404"
  "body_text not_found_response = Some ''Not Found''"
  by (simp_all add: not_found_response_def ok_def)

lemma handle_response_not_ok:
  "\<not> ok r \<Longrightarrow> fst (handle_response kv v r w) =
     (case body_text r of None \<Rightarrow> Throws
      | Some b \<Rightarrow> Returns (if status r = 404 then Some [] else None))"
  by (simp add: handle_response_def Let_def split: option.split)

lemma handle_response_not_json:
  "ok r \<Longrightarrow> \<not> json_content_type r \<Longrightarrow> fst (handle_response kv v r w) =
     (case body_text r of None \<Rightarrow> Throws | Some b \<Rightarrow> Returns None)"
  by (auto simp: handle_response_def Let_def json_content_type_def truthy_def split: option.split)

lemma handle_response_json:
  "ok r \<Longrightarrow> json_content_type r \<Longrightarrow> fst (handle_response kv v r w) =
     (case body_json r of
        None \<Rightarrow> Throws
      | Some d \<Rightarrow> Returns (if truthy (error d) then None
                           else case transcript d of None \<Rightarrow> Some []
                                | Some ts \<Rightarrow> if ts = [] then Some [] else Some ts))"
  by (auto simp: handle_response_def Let_def json_content_type_def truthy_def
        dest: includes_str_nonempty split: option.split)

lemma getTranscript_result_cong:
  assumes "SUPADATA_API_KEY w = SUPADATA_API_KEY w'" and "cached v w = cached v w'"
      and "remote w = remote w'"
  shows "fst (getTranscript v w) = fst (getTranscript v w')"
proof -
  have "\<And>r. fst (handle_response False v r w) = fst (handle_response False v r w')"
    by (rule handle_response_result)
  then show ?thesis
    using assms
    by (simp add: getTranscript_result split: option.split fetch_result.split outcome.split)
qed

lemma new_effects_get:
  "KvGet k \<in> set (new_effects v w) \<longleftrightarrow>
     k = v \<and> truthy (SUPADATA_API_KEY w) \<and> TRANSCRIPT_CACHE w \<noteq> None"
proof -
  have "KvGet k \<in> set (new_effects v w) \<longleftrightarrow> KvGet k \<in> set (filter is_get (new_effects v w))"
    by simp
  then show ?thesis
    by (auto simp: getTranscript_gets simp del: set_filter)
qed

lemma new_effects_put:
  "KvPut k val ttl \<in> set (new_effects v w) \<longleftrightarrow> KvPut k val ttl \<in> set (cache_writes v w)"
  by (simp add: cache_writes_def)

lemma new_effects_http:
  "HttpGet url hdrs \<in> set (new_effects v w) \<longleftrightarrow> HttpGet url hdrs \<in> set (http_calls v w)"
  by (simp add: http_calls_def)

lemma new_effects_parse:
  "ReadJson \<in> set (new_effects v w) \<longleftrightarrow> ReadJson \<in> set (filter is_parse (new_effects v w))"
  by simp

lemma cache_writes_cases:
  "cache_writes v w = []
   \<or> (\<exists>ts. fst (getTranscript v w) = Returns (Some ts)
            \<and> cache_writes v w = [KvPut v ts (if ts = [] then Some 3600 else None)])"
proof (cases "fst (getTranscript v w)")
  case Throws
  then show ?thesis by (simp add: getTranscript_puts)
next
  case (Returns res)
  then show ?thesis by (cases res) (simp_all add: getTranscript_puts)
qed


lemma writes_match:
  assumes "KvPut k val ttl \<in> set (new_effects videoId w)"
  shows "k = videoId \<and> fst (getTranscript videoId w) = Returns (Some val)
      \<and> ttl = (if val = [] then Some 3600 else None)"
proof -
  from assms have "KvPut k val ttl \<in> set (cache_writes videoId w)"
    by (simp only: new_effects_put)
  then show ?thesis
    using cache_writes_cases [of videoId w] by auto
qed

lemma no_write_without_sequence:
  assumes "fst (getTranscript videoId w) = Returns None \<or> fst (getTranscript videoId w) = Throws"
  shows "cache_writes videoId w = []
        \<and> TRANSCRIPT_CACHE (snd (getTranscript videoId w)) = TRANSCRIPT_CACHE w"
proof -
  from assms have "cache_writes videoId w = []"
    using cache_writes_cases [of videoId w] by auto
  then show ?thesis
    by (simp add: getTranscript_store split: option.split)
qed

lemma apiUrl_samples [simp]:
  "apiUrl ''abc123'' = Returns (url_of ''abc123'')"
  "apiUrl ''missing1'' = Returns (url_of ''missing1'')"
  "apiUrl ''badjson'' = Returns (url_of ''badjson'')"
  by (simp_all add: apiUrl_def encodeURIComponent_def uriUnreserved_def url_of_def)

lemma apiUrl_lone_surrogate [simp]: "apiUrl lone_surrogate = Throws"
  by (simp add: apiUrl_def encodeURIComponent_def lone_surrogate_def)

lemma http_calls_cases:
  "http_calls v w = []
   \<or> (\<exists>u. truthy (SUPADATA_API_KEY w) \<and> cached v w = None \<and> apiUrl v = Returns u
          \<and> http_calls v w = [HttpGet u (request_headers (the (SUPADATA_API_KEY w)))])"
  by (cases "apiUrl v") (simp_all add: getTranscript_http)

lemma cache_after_invocation:
  assumes "TRANSCRIPT_CACHE w = Some kv"
  shows "TRANSCRIPT_CACHE (snd (getTranscript videoId w)) = Some kv
        \<or> (\<exists>val. fst (getTranscript videoId w) = Returns (Some val)
              \<and> TRANSCRIPT_CACHE (snd (getTranscript videoId w))
                  = Some (kv\<lparr>store := (store kv)
                       (videoId \<mapsto> (val, if val = [] then Some 3600 else None))\<rparr>))"
proof -
  consider "cache_writes videoId w = []"
    | ts where "fst (getTranscript videoId w) = Returns (Some ts)"
        "cache_writes videoId w = [KvPut videoId ts (if ts = [] then Some 3600 else None)]"
    using cache_writes_cases [of videoId w] by blast
  then show ?thesis
  proof cases
    case 1
    then show ?thesis using assms by (simp add: getTranscript_store)
  next
    case 2
    show ?thesis
    proof (cases "put_throws kv")
      case True
      then show ?thesis using assms 2 by (simp add: getTranscript_store)
    next
      case False
      then have "TRANSCRIPT_CACHE (snd (getTranscript videoId w))
                  = Some (kv\<lparr>store := (store kv)
                       (videoId \<mapsto> (ts, if ts = [] then Some 3600 else None))\<rparr>)"
        using assms 2 by (simp add: getTranscript_store)
      then show ?thesis using 2(1) by blast
    qed
  qed
qed
section \<open>The resolver: properties\<close>

text \<open>
  Claim C1, as amended. When the credential is configured and the cache lookup yields a
  value for the video identifier (the binding is there, the read does not throw, the
  store holds a sequence, possibly empty), \<open>getTranscript\<close> returns that sequence and makes
  no outbound HTTP call and no cache write, whatever the remote provider would answer.
\<close>

theorem cache_hit_returns_cached:
  assumes "truthy (SUPADATA_API_KEY w)"
      and "TRANSCRIPT_CACHE w = Some kv" and "\<not> get_throws kv"
      and "store kv videoId = Some (c, ttl)"
  shows "fst (getTranscript videoId w) = Returns (Some c) \<and> http_calls videoId w = []
         \<and> cache_writes videoId w = []"
  using assms by (simp add: getTranscript_result getTranscript_http getTranscript_puts cached_def)

theorem cache_hit_returns_cached_witness:
  "fst (getTranscript ''cachedempty''
        (sample_world (Some ''key'')
           (Some (cache_holding ''cachedempty'' [] (Some 3600))) Rejected))
     = Returns (Some [])
   \<and> http_calls ''cachedempty''
        (sample_world (Some ''key'')
           (Some (cache_holding ''cachedempty'' [] (Some 3600))) Rejected) = []
   \<and> cache_writes ''cachedempty''
        (sample_world (Some ''key'')
           (Some (cache_holding ''cachedempty'' [] (Some 3600))) Rejected) = []"
  using cache_hit_returns_cached
    [of "sample_world (Some ''key'')
           (Some (cache_holding ''cachedempty'' [] (Some 3600))) Rejected"
        "cache_holding ''cachedempty'' [] (Some 3600)"
        "''cachedempty''" "[]" "Some 3600"]
  by (simp add: truthy_def)

text \<open>
  Claim C1 as stated fails: the credential is tested before the cache is read (lines 54
  to 58). With the credential unset and the empty sequence cached for the identifier,
  the result is the failure marker, not the cached value.
\<close>

theorem cache_hit_without_credential_fails:
  "store (cache_holding ''cachedempty'' [] (Some 3600)) ''cachedempty''
     = Some ([], Some 3600)
   \<and> fst (getTranscript ''cachedempty''
        (sample_world None
           (Some (cache_holding ''cachedempty'' [] (Some 3600))) Rejected))
     = Returns None"
  by (simp add: getTranscript_result truthy_def)

text \<open>
  Claim C2. When the credential is not configured (the variable is unset or empty),
  \<open>getTranscript\<close> returns the failure marker and makes no outbound HTTP call, for every
  video identifier.
\<close>

theorem missing_credential_fails:
  "\<not> truthy (SUPADATA_API_KEY w) \<Longrightarrow>
     fst (getTranscript videoId w) = Returns None \<and> http_calls videoId w = []"
  by (simp add: getTranscript_result getTranscript_http)

theorem missing_credential_fails_witness:
  "\<not> truthy (SUPADATA_API_KEY (sample_world None (Some empty_cache) Rejected))
   \<and> fst (getTranscript ''abc123'' (sample_world None (Some empty_cache) Rejected)) = Returns None
   \<and> http_calls ''abc123'' (sample_world None (Some empty_cache) Rejected) = []"
  using missing_credential_fails [of "sample_world None (Some empty_cache) Rejected" "''abc123''"]
  by (simp add: truthy_def)

text \<open>
  Claim C3, as amended. On a cache miss (the binding is there and the lookup reports
  absence or throws), when the response to the request is HTTP 404 with a readable body, or a
  success response with a JSON content type whose parsed body carries no error message
  and whose transcript field is absent or empty, \<open>getTranscript\<close> returns the empty
  sequence and issues exactly one cache write: the empty sequence under the video
  identifier with an expiration of 3600 seconds. Unless that write throws, the store
  then holds the empty sequence with that expiration.
\<close>

theorem confirmed_absence_cached:
  assumes key: "SUPADATA_API_KEY w = Some apiKey" "apiKey \<noteq> []"
      and kv: "TRANSCRIPT_CACHE w = Some kv"
      and miss: "get_throws kv \<or> store kv videoId = None"
      and url: "apiUrl videoId = Returns url"
      and resp: "remote w url (request_headers apiKey) = Resolved r"
      and absent:
        "(status r = 404 \<and> body_text r \<noteq> None)
         \<or> (ok r \<and> json_content_type r
             \<and> (\<exists>d. body_json r = Some d \<and> \<not> truthy (error d)
                     \<and> (transcript d = None \<or> transcript d = Some [])))"
  shows "fst (getTranscript videoId w) = Returns (Some [])
         \<and> cache_writes videoId w = [KvPut videoId [] (Some 3600)]
         \<and> (\<not> put_throws kv \<longrightarrow>
              (\<exists>kv'. TRANSCRIPT_CACHE (snd (getTranscript videoId w)) = Some kv'
                     \<and> store kv' videoId = Some ([], Some 3600)))"
proof -
  have c: "cached videoId w = None"
    using kv miss by (auto simp: cached_def)
  have t: "truthy (SUPADATA_API_KEY w)"
    using key by (simp add: truthy_def)
  have "fst (handle_response False videoId r w) = Returns (Some [])"
    using absent
  proof
    assume "status r = 404 \<and> body_text r \<noteq> None"
    then show ?thesis by (auto simp: handle_response_not_ok ok_def)
  next
    assume "ok r \<and> json_content_type r
             \<and> (\<exists>d. body_json r = Some d \<and> \<not> truthy (error d)
                     \<and> (transcript d = None \<or> transcript d = Some []))"
    then show ?thesis by (auto simp: handle_response_json)
  qed
  then have res: "fst (getTranscript videoId w) = Returns (Some [])"
    using c t key url resp by (simp add: getTranscript_result)
  then have wr: "cache_writes videoId w = [KvPut videoId [] (Some 3600)]"
    using c t kv by (simp add: getTranscript_puts)
  show ?thesis
    using res wr kv by (simp add: getTranscript_store)
qed

theorem confirmed_absence_cached_witness:
  "fst (getTranscript ''missing1''
          (sample_world (Some ''key'') (Some empty_cache) (Resolved not_found_response))) = Returns (Some [])
   \<and> cache_writes ''missing1''
          (sample_world (Some ''key'') (Some empty_cache) (Resolved not_found_response))
       = [KvPut ''missing1'' [] (Some 3600)]
   \<and> (\<exists>kv'. TRANSCRIPT_CACHE (snd (getTranscript ''missing1''
                 (sample_world (Some ''key'') (Some empty_cache) (Resolved not_found_response))))
               = Some kv'
             \<and> store kv' ''missing1'' = Some ([], Some 3600))
   \<and> fst (getTranscript ''abc123''
          (sample_world (Some ''key'') (Some (empty_cache\<lparr>get_throws := True\<rparr>))
             (Resolved (json_response \<lparr>transcript = Some [], error = None\<rparr>)))) = Returns (Some [])
   \<and> cache_writes ''abc123''
          (sample_world (Some ''key'') (Some (empty_cache\<lparr>get_throws := True\<rparr>))
             (Resolved (json_response \<lparr>transcript = Some [], error = None\<rparr>)))
       = [KvPut ''abc123'' [] (Some 3600)]"
proof -
  let ?w1 = "sample_world (Some ''key'') (Some empty_cache) (Resolved not_found_response)"
  let ?d = "\<lparr>transcript = Some [], error = None\<rparr>"
  let ?w2 = "sample_world (Some ''key'') (Some (empty_cache\<lparr>get_throws := True\<rparr>))
               (Resolved (json_response ?d))"
  from confirmed_absence_cached [of ?w1 "''key''" empty_cache "''missing1''" "url_of ''missing1''"
      not_found_response]
  have 1: "fst (getTranscript ''missing1'' ?w1) = Returns (Some [])
     \<and> cache_writes ''missing1'' ?w1 = [KvPut ''missing1'' [] (Some 3600)]
     \<and> (\<exists>kv'. TRANSCRIPT_CACHE (snd (getTranscript ''missing1'' ?w1)) = Some kv'
             \<and> store kv' ''missing1'' = Some ([], Some 3600))"
    by (simp add: empty_cache_def)
  from confirmed_absence_cached [of ?w2 "''key''" "empty_cache\<lparr>get_throws := True\<rparr>" "''abc123''"
      "url_of ''abc123''"
      "json_response ?d"]
  have 2: "fst (getTranscript ''abc123'' ?w2) = Returns (Some [])
     \<and> cache_writes ''abc123'' ?w2 = [KvPut ''abc123'' [] (Some 3600)]"
    by (simp add: empty_cache_def truthy_def)
  from 1 2 show ?thesis by simp
qed

text \<open>
  Claim C3 as stated fails: the error field is tested first (line 128). A success JSON
  response whose body has an error message and no transcript field gives the failure
  marker and no cache write.
\<close>

theorem error_field_overrides_absent_transcript:
  "ok (json_response \<lparr>transcript = None, error = Some ''quota exceeded''\<rparr>)
   \<and> json_content_type (json_response \<lparr>transcript = None, error = Some ''quota exceeded''\<rparr>)
   \<and> transcript \<lparr>transcript = None, error = Some ''quota exceeded''\<rparr> = None
   \<and> cached ''abc123'' (sample_world (Some ''key'') (Some empty_cache)
        (Resolved (json_response \<lparr>transcript = None, error = Some ''quota exceeded''\<rparr>))) = None
   \<and> fst (getTranscript ''abc123''
          (sample_world (Some ''key'') (Some empty_cache)
             (Resolved (json_response \<lparr>transcript = None, error = Some ''quota exceeded''\<rparr>))))
       = Returns None
   \<and> cache_writes ''abc123''
          (sample_world (Some ''key'') (Some empty_cache)
             (Resolved (json_response \<lparr>transcript = None, error = Some ''quota exceeded''\<rparr>)))
       = []"
  by (simp add: getTranscript_result getTranscript_puts handle_response_json truthy_def
        cached_def empty_cache_def)

text \<open>
  Claim C4, as amended. When no cached value is found and the outcome of the request is a
  network-level exception, a non-success status other than 404 (or a non-success
  response whose body cannot be read), a success response whose content type is not
  JSON, a success JSON response whose body cannot be parsed, or a success JSON body with
  a non-empty error field, \<open>getTranscript\<close> returns the failure marker, makes no cache
  write and leaves the cache as it was.
\<close>

theorem remote_failure_no_cache_write:
  assumes key: "SUPADATA_API_KEY w = Some apiKey" "apiKey \<noteq> []"
      and miss: "cached videoId w = None"
      and url: "apiUrl videoId = Returns url"
      and fail:
        "remote w url (request_headers apiKey) = Rejected
         \<or> (\<exists>r. remote w url (request_headers apiKey) = Resolved r
               \<and> ((\<not> ok r \<and> (status r \<noteq> 404 \<or> body_text r = None))
                   \<or> (ok r \<and> \<not> json_content_type r)
                   \<or> (ok r \<and> json_content_type r \<and> body_json r = None)
                   \<or> (ok r \<and> json_content_type r
                       \<and> (\<exists>d. body_json r = Some d \<and> truthy (error d)))))"
  shows "fst (getTranscript videoId w) = Returns None
         \<and> cache_writes videoId w = []
         \<and> TRANSCRIPT_CACHE (snd (getTranscript videoId w)) = TRANSCRIPT_CACHE w"
proof -
  have t: "truthy (SUPADATA_API_KEY w)"
    using key by (simp add: truthy_def)
  have res: "fst (getTranscript videoId w) = Returns None"
    using fail
  proof (elim disjE exE conjE)
    assume "remote w url (request_headers apiKey) = Rejected"
    then show ?thesis using t key miss url by (simp add: getTranscript_result)
  next
    fix r assume "remote w url (request_headers apiKey) = Resolved r"
      "\<not> ok r" "status r \<noteq> 404"
    then show ?thesis using t key miss url
      by (simp add: getTranscript_result handle_response_not_ok split: option.split)
  next
    fix r assume "remote w url (request_headers apiKey) = Resolved r"
      "\<not> ok r" "body_text r = None"
    then show ?thesis using t key miss url
      by (simp add: getTranscript_result handle_response_not_ok)
  next
    fix r assume "remote w url (request_headers apiKey) = Resolved r"
      "ok r" "\<not> json_content_type r"
    then show ?thesis using t key miss url
      by (simp add: getTranscript_result handle_response_not_json split: option.split)
  next
    fix r assume "remote w url (request_headers apiKey) = Resolved r"
      "ok r" "json_content_type r" "body_json r = None"
    then show ?thesis using t key miss url
      by (simp add: getTranscript_result handle_response_json)
  next
    fix r d assume "remote w url (request_headers apiKey) = Resolved r"
      "ok r" "json_content_type r" "body_json r = Some d" "truthy (error d)"
    then show ?thesis using t key miss url
      by (simp add: getTranscript_result handle_response_json)
  qed
  then have wr: "cache_writes videoId w = []"
    by (simp add: getTranscript_puts)
  show ?thesis
    using res wr by (simp add: getTranscript_store split: option.split)
qed

theorem remote_failure_no_cache_write_witness:
  "fst (getTranscript ''badjson''
          (sample_world (Some ''key'') (Some empty_cache)
             (Resolved \<lparr>status = 200, content_type = Some ''text/html'',
                        body_text = Some ''<html></html>'', body_json = None\<rparr>))) = Returns None
   \<and> cache_writes ''badjson''
          (sample_world (Some ''key'') (Some empty_cache)
             (Resolved \<lparr>status = 200, content_type = Some ''text/html'',
                        body_text = Some ''<html></html>'', body_json = None\<rparr>)) = []
   \<and> TRANSCRIPT_CACHE (snd (getTranscript ''badjson''
          (sample_world (Some ''key'') (Some empty_cache)
             (Resolved \<lparr>status = 200, content_type = Some ''text/html'',
                        body_text = Some ''<html></html>'', body_json = None\<rparr>))))
       = Some empty_cache
   \<and> fst (getTranscript ''abc123'' (sample_world (Some ''key'') (Some empty_cache) Rejected)) = Returns None
   \<and> fst (getTranscript ''abc123''
          (sample_world (Some ''key'') (Some empty_cache)
             (Resolved \<lparr>status = 500, content_type = None,
                        body_text = Some ''Internal Server Error'', body_json = None\<rparr>))) = Returns None
   \<and> fst (getTranscript ''abc123''
          (sample_world (Some ''key'') (Some empty_cache)
             (Resolved (json_response \<lparr>transcript = Some hello, error = Some ''quota exceeded''\<rparr>))))
       = Returns None"
proof -
  let ?r1 = "\<lparr>status = 200, content_type = Some ''text/html'',
              body_text = Some ''<html></html>'', body_json = None\<rparr>"
  let ?r2 = "\<lparr>status = 500, content_type = None,
              body_text = Some ''Internal Server Error'', body_json = None\<rparr>"
  let ?d = "\<lparr>transcript = Some hello, error = Some ''quota exceeded''\<rparr>"
  let ?w = "\<lambda>res. sample_world (Some ''key'') (Some empty_cache) res"
  have c: "cached v (?w res) = None" for v res
    by (simp add: cached_def empty_cache_def)
  from remote_failure_no_cache_write [of "?w (Resolved ?r1)" "''key''" "''badjson''" "url_of ''badjson''"]
  have 1: "fst (getTranscript ''badjson'' (?w (Resolved ?r1))) = Returns None
     \<and> cache_writes ''badjson'' (?w (Resolved ?r1)) = []
     \<and> TRANSCRIPT_CACHE (snd (getTranscript ''badjson'' (?w (Resolved ?r1)))) = Some empty_cache"
    by (simp add: c ok_def json_content_type_def)
  from remote_failure_no_cache_write [of "?w Rejected" "''key''" "''abc123''" "url_of ''abc123''"]
  have 2: "fst (getTranscript ''abc123'' (?w Rejected)) = Returns None"
    by (simp add: c)
  from remote_failure_no_cache_write [of "?w (Resolved ?r2)" "''key''" "''abc123''" "url_of ''abc123''"]
  have 3: "fst (getTranscript ''abc123'' (?w (Resolved ?r2))) = Returns None"
    by (simp add: c ok_def)
  from remote_failure_no_cache_write [of "?w (Resolved (json_response ?d))" "''key''" "''abc123''" "url_of ''abc123''"]
  have 4: "fst (getTranscript ''abc123'' (?w (Resolved (json_response ?d)))) = Returns None"
    by (simp add: c truthy_def)
  from 1 2 3 4 show ?thesis by simp
qed

text \<open>
  Claim C4 as stated fails for an error field that is present and empty: line 128 tests
  the truthiness of the field. With the body \<open>{"error": ""}\<close> the result is the empty
  sequence, and the empty sequence is written to the cache.
\<close>

theorem empty_error_field_not_failure:
  "ok (json_response \<lparr>transcript = None, error = Some ''''\<rparr>)
   \<and> json_content_type (json_response \<lparr>transcript = None, error = Some ''''\<rparr>)
   \<and> error \<lparr>transcript = None, error = Some ''''\<rparr> \<noteq> None
   \<and> cached ''abc123'' (sample_world (Some ''key'') (Some empty_cache)
        (Resolved (json_response \<lparr>transcript = None, error = Some ''''\<rparr>))) = None
   \<and> fst (getTranscript ''abc123''
          (sample_world (Some ''key'') (Some empty_cache)
             (Resolved (json_response \<lparr>transcript = None, error = Some ''''\<rparr>)))) = Returns (Some [])
   \<and> cache_writes ''abc123''
          (sample_world (Some ''key'') (Some empty_cache)
             (Resolved (json_response \<lparr>transcript = None, error = Some ''''\<rparr>)))
       = [KvPut ''abc123'' [] (Some 3600)]"
  by (simp add: getTranscript_result getTranscript_puts handle_response_json truthy_def
        cached_def empty_cache_def)

text \<open>
  Claim C5, as amended. On a cache miss, when the response to the request is a success response
  with a JSON content type whose parsed body carries no error message and a non-empty
  transcript field, \<open>getTranscript\<close> returns that sequence unchanged and issues exactly
  one cache write: that sequence under the video identifier, with no expiration. Unless
  the write throws, the store then holds the sequence without expiration.
\<close>

theorem transcript_returned_and_cached:
  assumes key: "SUPADATA_API_KEY w = Some apiKey" "apiKey \<noteq> []"
      and kv: "TRANSCRIPT_CACHE w = Some kv"
      and miss: "get_throws kv \<or> store kv videoId = None"
      and url: "apiUrl videoId = Returns url"
      and resp: "remote w url (request_headers apiKey) = Resolved r"
      and json: "ok r" "json_content_type r" "body_json r = Some d"
      and noerr: "\<not> truthy (error d)"
      and ts: "transcript d = Some ts" "ts \<noteq> []"
  shows "fst (getTranscript videoId w) = Returns (Some ts)
         \<and> cache_writes videoId w = [KvPut videoId ts None]
         \<and> (\<not> put_throws kv \<longrightarrow>
              (\<exists>kv'. TRANSCRIPT_CACHE (snd (getTranscript videoId w)) = Some kv'
                     \<and> store kv' videoId = Some (ts, None)))"
proof -
  have c: "cached videoId w = None"
    using kv miss by (auto simp: cached_def)
  have t: "truthy (SUPADATA_API_KEY w)"
    using key by (simp add: truthy_def)
  have "fst (handle_response False videoId r w) = Returns (Some ts)"
    using json noerr ts by (simp add: handle_response_json)
  then have res: "fst (getTranscript videoId w) = Returns (Some ts)"
    using c t key url resp by (simp add: getTranscript_result)
  then have wr: "cache_writes videoId w = [KvPut videoId ts None]"
    using c t kv ts by (simp add: getTranscript_puts)
  show ?thesis
    using res wr kv by (simp add: getTranscript_store)
qed

theorem transcript_returned_and_cached_witness:
  "fst (getTranscript ''abc123''
          (sample_world (Some ''key'') (Some empty_cache)
             (Resolved (json_response \<lparr>transcript = Some hello, error = None\<rparr>)))) = Returns (Some hello)
   \<and> cache_writes ''abc123''
          (sample_world (Some ''key'') (Some empty_cache)
             (Resolved (json_response \<lparr>transcript = Some hello, error = None\<rparr>)))
       = [KvPut ''abc123'' hello None]
   \<and> (\<exists>kv'. TRANSCRIPT_CACHE (snd (getTranscript ''abc123''
                 (sample_world (Some ''key'') (Some empty_cache)
                    (Resolved (json_response \<lparr>transcript = Some hello, error = None\<rparr>)))))
               = Some kv'
             \<and> store kv' ''abc123'' = Some (hello, None))"
  using transcript_returned_and_cached [of "sample_world (Some ''key'') (Some empty_cache)
                  (Resolved (json_response \<lparr>transcript = Some hello, error = None\<rparr>))"
               "''key''" empty_cache "''abc123''" "url_of ''abc123''"
               "json_response \<lparr>transcript = Some hello, error = None\<rparr>"
               "\<lparr>transcript = Some hello, error = None\<rparr>" hello]
  by (simp add: empty_cache_def truthy_def hello_def)

text \<open>
  Claim C5 as stated fails: a success JSON response whose body has a non-empty
  transcript field and also an error message gives the failure marker and no cache
  write.
\<close>

theorem error_field_overrides_transcript:
  "ok (json_response \<lparr>transcript = Some hello, error = Some ''quota exceeded''\<rparr>)
   \<and> json_content_type (json_response \<lparr>transcript = Some hello, error = Some ''quota exceeded''\<rparr>)
   \<and> hello \<noteq> []
   \<and> cached ''abc123'' (sample_world (Some ''key'') (Some empty_cache)
        (Resolved (json_response \<lparr>transcript = Some hello, error = Some ''quota exceeded''\<rparr>))) = None
   \<and> fst (getTranscript ''abc123''
          (sample_world (Some ''key'') (Some empty_cache)
             (Resolved (json_response \<lparr>transcript = Some hello, error = Some ''quota exceeded''\<rparr>))))
       = Returns None
   \<and> cache_writes ''abc123''
          (sample_world (Some ''key'') (Some empty_cache)
             (Resolved (json_response \<lparr>transcript = Some hello, error = Some ''quota exceeded''\<rparr>)))
       = []"
  by (simp add: getTranscript_result getTranscript_puts handle_response_json truthy_def
        cached_def empty_cache_def hello_def)

text \<open>
  Claim C6. Whether the cache write throws never changes the result: the same
  invocation, on a namespace whose \<open>put\<close> throws and on one whose \<open>put\<close> succeeds,
  returns the same value. In particular, when the remote fetch succeeds with a
  non-empty transcript (every check of lines 93 to 163 passes) and the write that
  follows throws, the fetched sequence is returned; the write was attempted and the
  cache is unchanged.
\<close>

theorem cache_write_failure_swallowed:
  "fst (getTranscript videoId (w\<lparr>TRANSCRIPT_CACHE := Some (kv\<lparr>put_throws := True\<rparr>)\<rparr>))
     = fst (getTranscript videoId (w\<lparr>TRANSCRIPT_CACHE := Some (kv\<lparr>put_throws := False\<rparr>)\<rparr>))
   \<and> (SUPADATA_API_KEY w = Some apiKey \<and> apiKey \<noteq> []
        \<and> TRANSCRIPT_CACHE w = Some kv \<and> (get_throws kv \<or> store kv videoId = None)
        \<and> apiUrl videoId = Returns url
        \<and> remote w url (request_headers apiKey) = Resolved r
        \<and> ok r \<and> json_content_type r \<and> body_json r = Some d \<and> \<not> truthy (error d)
        \<and> transcript d = Some ts \<and> ts \<noteq> [] \<and> put_throws kv
      \<longrightarrow> fst (getTranscript videoId w) = Returns (Some ts)
          \<and> cache_writes videoId w = [KvPut videoId ts None]
          \<and> TRANSCRIPT_CACHE (snd (getTranscript videoId w)) = Some kv)"
proof (intro conjI impI)
  show "fst (getTranscript videoId (w\<lparr>TRANSCRIPT_CACHE := Some (kv\<lparr>put_throws := True\<rparr>)\<rparr>))
     = fst (getTranscript videoId (w\<lparr>TRANSCRIPT_CACHE := Some (kv\<lparr>put_throws := False\<rparr>)\<rparr>))"
    by (rule getTranscript_result_cong) (simp_all add: cached_def)
next
  assume h: "SUPADATA_API_KEY w = Some apiKey \<and> apiKey \<noteq> []
        \<and> TRANSCRIPT_CACHE w = Some kv \<and> (get_throws kv \<or> store kv videoId = None)
        \<and> apiUrl videoId = Returns url
        \<and> remote w url (request_headers apiKey) = Resolved r
        \<and> ok r \<and> json_content_type r \<and> body_json r = Some d \<and> \<not> truthy (error d)
        \<and> transcript d = Some ts \<and> ts \<noteq> [] \<and> put_throws kv"
  then have c: "cached videoId w = None" by (auto simp: cached_def)
  have t: "truthy (SUPADATA_API_KEY w)" using h by (simp add: truthy_def)
  have "fst (handle_response False videoId r w) = Returns (Some ts)"
    using h by (simp add: handle_response_json)
  then show res: "fst (getTranscript videoId w) = Returns (Some ts)"
    using c t h by (simp add: getTranscript_result)
  then show wr: "cache_writes videoId w = [KvPut videoId ts None]"
    using c t h by (simp add: getTranscript_puts)
  show "TRANSCRIPT_CACHE (snd (getTranscript videoId w)) = Some kv"
    using wr h by (simp add: getTranscript_store)
qed

theorem cache_write_failure_swallowed_witness:
  "fst (getTranscript ''abc123''
          (sample_world (Some ''key'') (Some (empty_cache\<lparr>put_throws := True\<rparr>))
             (Resolved (json_response \<lparr>transcript = Some hello, error = None\<rparr>)))) = Returns (Some hello)
   \<and> cache_writes ''abc123''
          (sample_world (Some ''key'') (Some (empty_cache\<lparr>put_throws := True\<rparr>))
             (Resolved (json_response \<lparr>transcript = Some hello, error = None\<rparr>)))
       = [KvPut ''abc123'' hello None]
   \<and> TRANSCRIPT_CACHE (snd (getTranscript ''abc123''
          (sample_world (Some ''key'') (Some (empty_cache\<lparr>put_throws := True\<rparr>))
             (Resolved (json_response \<lparr>transcript = Some hello, error = None\<rparr>)))))
       = Some (empty_cache\<lparr>put_throws := True\<rparr>)"
  using cache_write_failure_swallowed [where videoId = "''abc123''"
              and w = "sample_world (Some ''key'') (Some (empty_cache\<lparr>put_throws := True\<rparr>))
                         (Resolved (json_response \<lparr>transcript = Some hello, error = None\<rparr>))"
              and kv = "empty_cache\<lparr>put_throws := True\<rparr>" and apiKey = "''key''"
              and url = "url_of ''abc123''"
              and r = "json_response \<lparr>transcript = Some hello, error = None\<rparr>"
              and d = "\<lparr>transcript = Some hello, error = None\<rparr>" and ts = hello]
  by (simp add: empty_cache_def truthy_def hello_def)

text \<open>
  After a lookup that is not a hit, for an identifier whose URL can be built, exactly one
  outbound HTTP call is made, to that URL with the credential; and a read that throws
  gives the result of a lookup that reports absence.
\<close>

lemma one_http_call_after_miss:
  assumes "SUPADATA_API_KEY w = Some apiKey" and "apiKey \<noteq> []"
      and "TRANSCRIPT_CACHE w = Some kv"
      and "get_throws kv \<or> store kv videoId = None"
      and "apiUrl videoId = Returns url"
  shows "http_calls videoId w = [HttpGet url (request_headers apiKey)]
         \<and> fst (getTranscript videoId w)
           = fst (getTranscript videoId
                   (w\<lparr>TRANSCRIPT_CACHE :=
                        Some (kv\<lparr>store := (store kv)(videoId := None), get_throws := False\<rparr>)\<rparr>))"
proof
  have c: "cached videoId w = None"
    using assms(3,4) by (auto simp: cached_def)
  show "http_calls videoId w = [HttpGet url (request_headers apiKey)]"
    using c assms(1,2,5) by (simp add: getTranscript_http truthy_def)
  show "fst (getTranscript videoId w)
           = fst (getTranscript videoId
                   (w\<lparr>TRANSCRIPT_CACHE :=
                        Some (kv\<lparr>store := (store kv)(videoId := None), get_throws := False\<rparr>)\<rparr>))"
    using c by (intro getTranscript_result_cong) (simp_all add: cached_def)
qed

text \<open>
  Claim C7 on the code: line 80 builds the URL with \<open>encodeURIComponent\<close> before the
  \<open>try\<close> of line 83. For the identifier that is one unpaired surrogate, with the
  credential configured and an empty cache, the lookup takes place and reports absence;
  then the call rejects with the \<open>URIError\<close>, and no outbound HTTP call is made, where the
  claim has exactly one.
\<close>

theorem unpaired_surrogate_no_http_call:
  "cached lone_surrogate (sample_world (Some ''key'') (Some empty_cache) Rejected) = None
   \<and> filter is_get (new_effects lone_surrogate
         (sample_world (Some ''key'') (Some empty_cache) Rejected)) = [KvGet lone_surrogate]
   \<and> fst (getTranscript lone_surrogate
         (sample_world (Some ''key'') (Some empty_cache) Rejected)) = Throws
   \<and> http_calls lone_surrogate (sample_world (Some ''key'') (Some empty_cache) Rejected) = []"
  by (simp add: getTranscript_result getTranscript_http getTranscript_gets cached_def truthy_def
        empty_cache_def)

text \<open>
  Claim C9. Every cache write of an invocation is under the video identifier and
  writes the value the invocation returns, the empty sequence with an expiration of
  3600 seconds and any other sequence without expiration. An invocation that returns
  the failure marker, or rejects, makes no write and leaves the cache as it was. And the cache after
  an invocation is the cache before it, or differs from it at the video identifier
  only, where it holds the value returned.
\<close>

theorem cache_write_matches_result:
  "(\<forall>k val ttl. KvPut k val ttl \<in> set (new_effects videoId w) \<longrightarrow>
      k = videoId \<and> fst (getTranscript videoId w) = Returns (Some val)
      \<and> ttl = (if val = [] then Some 3600 else None))
   \<and> (fst (getTranscript videoId w) = Returns None \<or> fst (getTranscript videoId w) = Throws
        \<longrightarrow> cache_writes videoId w = []
            \<and> TRANSCRIPT_CACHE (snd (getTranscript videoId w)) = TRANSCRIPT_CACHE w)
   \<and> (\<forall>kv. TRANSCRIPT_CACHE w = Some kv \<longrightarrow>
        TRANSCRIPT_CACHE (snd (getTranscript videoId w)) = Some kv
        \<or> (\<exists>val. fst (getTranscript videoId w) = Returns (Some val)
              \<and> TRANSCRIPT_CACHE (snd (getTranscript videoId w))
                  = Some (kv\<lparr>store := (store kv)
                       (videoId \<mapsto> (val, if val = [] then Some 3600 else None))\<rparr>)))"
proof (intro conjI)
  show "\<forall>k val ttl. KvPut k val ttl \<in> set (new_effects videoId w) \<longrightarrow>
      k = videoId \<and> fst (getTranscript videoId w) = Returns (Some val)
      \<and> ttl = (if val = [] then Some 3600 else None)"
    by (intro allI impI) (rule writes_match)
  show "fst (getTranscript videoId w) = Returns None \<or> fst (getTranscript videoId w) = Throws
        \<longrightarrow> cache_writes videoId w = []
            \<and> TRANSCRIPT_CACHE (snd (getTranscript videoId w)) = TRANSCRIPT_CACHE w"
    by (intro impI) (rule no_write_without_sequence)
  show "\<forall>kv. TRANSCRIPT_CACHE w = Some kv \<longrightarrow>
        TRANSCRIPT_CACHE (snd (getTranscript videoId w)) = Some kv
        \<or> (\<exists>val. fst (getTranscript videoId w) = Returns (Some val)
              \<and> TRANSCRIPT_CACHE (snd (getTranscript videoId w))
                  = Some (kv\<lparr>store := (store kv)
                       (videoId \<mapsto> (val, if val = [] then Some 3600 else None))\<rparr>))"
    by (intro allI impI) (rule cache_after_invocation)
qed

theorem cache_write_matches_result_witness:
  "KvPut ''abc123'' hello None \<in> set (new_effects ''abc123''
      (sample_world (Some ''key'') (Some empty_cache)
         (Resolved (json_response \<lparr>transcript = Some hello, error = None\<rparr>))))
   \<and> fst (getTranscript ''abc123''
        (sample_world (Some ''key'') (Some empty_cache)
           (Resolved (json_response \<lparr>transcript = Some hello, error = None\<rparr>))))
      = Returns (Some hello)"
proof -
  let ?w = "sample_world (Some ''key'') (Some empty_cache)
              (Resolved (json_response \<lparr>transcript = Some hello, error = None\<rparr>))"
  have r: "fst (getTranscript ''abc123'' ?w) = Returns (Some hello)"
    by (simp add: getTranscript_result cached_def truthy_def handle_response_json hello_def
          empty_cache_def)
  have "cache_writes ''abc123'' ?w = [KvPut ''abc123'' hello None]"
    using r by (simp add: getTranscript_puts cached_def truthy_def empty_cache_def hello_def)
  then have p: "KvPut ''abc123'' hello None \<in> set (new_effects ''abc123'' ?w)"
    by (simp only: new_effects_put) simp
  from cache_write_matches_result [of "''abc123''" ?w]
  have "KvPut ''abc123'' hello None \<in> set (new_effects ''abc123'' ?w) \<longrightarrow>
          fst (getTranscript ''abc123'' ?w) = Returns (Some hello)"
    by (elim conjE allE [of _ "''abc123''"] allE [of _ hello] allE [of _ "None :: nat option"]) simp
  with p show ?thesis by simp
qed

text \<open>
  Claim C10. For a success response to the request of the invocation: when it has no
  \<open>content-type\<close> header, the result is the failure marker, whatever the body; and the
  body is parsed as JSON exactly when the header is present and contains the substring
  \<open>application/json\<close>. The witness has a valid JSON body without the header, and a body
  under \<open>application/json; charset=utf-8\<close>, which is parsed.
\<close>

theorem content_type_gate:
  assumes "HttpGet url hdrs \<in> set (new_effects videoId w)"
      and "remote w url hdrs = Resolved r" and "ok r"
  shows "(content_type r = None \<longrightarrow> fst (getTranscript videoId w) = Returns None)
         \<and> (ReadJson \<in> set (new_effects videoId w)
              \<longleftrightarrow> (\<exists>c. content_type r = Some c \<and> includes_str c ''application/json''))"
proof -
  from assms(1) have "HttpGet url hdrs \<in> set (http_calls videoId w)"
    by (simp only: new_effects_http)
  then have h: "truthy (SUPADATA_API_KEY w)" "cached videoId w = None"
    "apiUrl videoId = Returns url" "hdrs = request_headers (the (SUPADATA_API_KEY w))"
    using http_calls_cases [of videoId w] by auto
  have j: "json_content_type r \<longleftrightarrow> (\<exists>c. content_type r = Some c \<and> includes_str c ''application/json'')"
    by (simp add: json_content_type_def split: option.split)
  have a: "content_type r = None \<longrightarrow> fst (getTranscript videoId w) = Returns None"
    using h assms(2,3)
    by (auto simp: getTranscript_result handle_response_not_json json_content_type_def
          split: option.split)
  have b: "ReadJson \<in> set (new_effects videoId w) \<longleftrightarrow> json_content_type r"
    using h assms(2,3) by (subst new_effects_parse) (simp add: getTranscript_parse)
  show ?thesis using a b j by simp
qed

theorem content_type_gate_witness:
  "fst (getTranscript ''abc123''
          (sample_world (Some ''key'') None
             (Resolved \<lparr>status = 200, content_type = None, body_text = Some ''{}'',
                        body_json = Some \<lparr>transcript = Some hello, error = None\<rparr>\<rparr>))) = Returns None
   \<and> ReadJson \<notin> set (new_effects ''abc123''
          (sample_world (Some ''key'') None
             (Resolved \<lparr>status = 200, content_type = None, body_text = Some ''{}'',
                        body_json = Some \<lparr>transcript = Some hello, error = None\<rparr>\<rparr>)))
   \<and> ReadJson \<in> set (new_effects ''abc123''
          (sample_world (Some ''key'') None
             (Resolved \<lparr>status = 200, content_type = Some ''application/json; charset=utf-8'',
                        body_text = Some ''{}'',
                        body_json = Some \<lparr>transcript = Some hello, error = None\<rparr>\<rparr>)))"
proof -
  let ?r1 = "\<lparr>status = 200, content_type = None, body_text = Some ''{}'',
              body_json = Some \<lparr>transcript = Some hello, error = None\<rparr>\<rparr>"
  let ?r2 = "\<lparr>status = 200, content_type = Some ''application/json; charset=utf-8'',
              body_text = Some ''{}'',
              body_json = Some \<lparr>transcript = Some hello, error = None\<rparr>\<rparr>"
  have h: "http_calls ''abc123'' (sample_world (Some ''key'') None (Resolved r))
             = [HttpGet (url_of ''abc123'') (request_headers ''key'')]" for r
    by (simp add: getTranscript_http truthy_def cached_def)
  have s: "HttpGet (url_of ''abc123'') (request_headers ''key'')
             \<in> set (new_effects ''abc123'' (sample_world (Some ''key'') None (Resolved r)))" for r
    by (simp only: new_effects_http h) simp
  have i: "includes_str ''application/json; charset=utf-8'' ''application/json''"
    by simp
  from content_type_gate [OF s [of ?r1], of ?r1] content_type_gate [OF s [of ?r2], of ?r2] i
  show ?thesis by (simp add: ok_def)
qed

section \<open>Lemmas on the \<open>Date\<close> primitives\<close>

lemma div_succ:
  fixes a n :: int
  assumes "0 < n"
  shows "(a + 1) div n = a div n + (if (a + 1) mod n = 0 then 1 else 0)"
proof -
  define q r where "q = a div n" and "r = a mod n"
  have a: "a = n * q + r" and r: "0 \<le> r" "r < n"
    using assms by (simp_all add: q_def r_def)
  show ?thesis
  proof (cases "r + 1 = n")
    case True
    then have e: "a + 1 = n * (q + 1) + 0" using a by (simp add: algebra_simps)
    have "(a + 1) div n = q + 1" using assms by (intro int_div_pos_eq [OF e]) simp_all
    moreover have "(a + 1) mod n = 0" using assms by (intro int_mod_pos_eq [OF e]) simp_all
    ultimately show ?thesis by (simp add: q_def)
  next
    case False
    then have b: "0 \<le> r + 1" "r + 1 < n" using r by simp_all
    have e: "a + 1 = n * q + (r + 1)" using a by simp
    have "(a + 1) div n = q" by (rule int_div_pos_eq [OF e b])
    moreover have "(a + 1) mod n = r + 1" by (rule int_mod_pos_eq [OF e b])
    ultimately show ?thesis using r by (simp add: q_def)
  qed
qed

lemma mod_shift:
  "((y::int) - 1968) mod 4 = y mod 4" "((y::int) - 1900) mod 100 = y mod 100"
  "((y::int) - 1600) mod 400 = y mod 400"
proof -
  have "(y - 1968) mod 4 = (y mod 4 - 1968 mod 4) mod 4" by (simp only: mod_diff_eq)
  then show "(y - 1968) mod 4 = y mod 4" by simp
  have "(y - 1900) mod 100 = (y mod 100 - 1900 mod 100) mod 100" by (simp only: mod_diff_eq)
  then show "(y - 1900) mod 100 = y mod 100" by simp
  have "(y - 1600) mod 400 = (y mod 400 - 1600 mod 400) mod 400" by (simp only: mod_diff_eq)
  then show "(y - 1600) mod 400 = y mod 400" by simp
qed

lemma mod_chain:
  fixes y :: int
  shows "y mod 400 = 0 \<Longrightarrow> y mod 100 = 0" and "y mod 100 = 0 \<Longrightarrow> y mod 4 = 0"
proof -
  assume "y mod 400 = 0"
  then have "(400::int) dvd y" by (simp add: dvd_eq_mod_eq_0)
  moreover have "(100::int) dvd 400" by simp
  ultimately have "(100::int) dvd y" by (rule dvd_trans [rotated])
  then show "y mod 100 = 0" by (simp add: dvd_eq_mod_eq_0)
next
  assume "y mod 100 = 0"
  then have "(100::int) dvd y" by (simp add: dvd_eq_mod_eq_0)
  moreover have "(4::int) dvd 100" by simp
  ultimately have "(4::int) dvd y" by (rule dvd_trans [rotated])
  then show "y mod 4 = 0" by (simp add: dvd_eq_mod_eq_0)
qed

lemma DayFromYear_step: "DayFromYear (y + 1) = DayFromYear y + DaysInYear y"
proof -
  have s4: "(y - 1968) div 4 = (y - 1969) div 4 + (if y mod 4 = 0 then 1 else 0)"
    using div_succ [of 4 "y - 1969"] by (simp add: mod_shift)
  have s100: "(y - 1900) div 100 = (y - 1901) div 100 + (if y mod 100 = 0 then 1 else 0)"
    using div_succ [of 100 "y - 1901"] by (simp add: mod_shift)
  have s400: "(y - 1600) div 400 = (y - 1601) div 400 + (if y mod 400 = 0 then 1 else 0)"
    using div_succ [of 400 "y - 1601"] by (simp add: mod_shift)
  have "DayFromYear (y + 1) =
      365 * (y - 1969) + (y - 1968) div 4 - (y - 1900) div 100 + (y - 1600) div 400"
    by (simp add: DayFromYear_def)
  also have "\<dots> = DayFromYear y + DaysInYear y"
    unfolding s4 s100 s400 using mod_chain [of y]
    by (auto simp add: DayFromYear_def DaysInYear_def)
  finally show ?thesis .
qed

lemma div_lower: "(0::int) < n \<Longrightarrow> n * (a div n) \<le> a"
  by (metis mult.commute div_mult_mod_eq pos_mod_sign add_le_same_cancel1 le_add_same_cancel1)

lemma div_upper: "(0::int) < n \<Longrightarrow> a < n * (a div n) + n"
  by (metis mult.commute div_mult_mod_eq pos_mod_bound add_less_cancel_left)

lemma DaysInYear_range: "DaysInYear y = 365 \<or> DaysInYear y = 366"
  by (simp add: DaysInYear_def)

lemma DayFromYear_less: "DayFromYear y < DayFromYear (y + 1)"
  using DaysInYear_range [of y] by (auto simp: DayFromYear_step)

lemma DayFromYear_mono: "y \<le> y' \<Longrightarrow> DayFromYear y \<le> DayFromYear y'"
proof (induction y' rule: int_ge_induct)
  case base
  show ?case by simp
next
  case (step i)
  then show ?case using DayFromYear_less [of i] by simp
qed

lemma year_estimate_low:
  fixes x d q1 q2 q3 :: int
  assumes "146097 * x \<le> 400 * d"
      and "4 * q1 \<le> x" and "x + 68 < 100 * q2 + 100" and "400 * q3 \<le> x + 368"
  shows "365 * (x - 1) + q1 - q2 + q3 \<le> d"
proof -
  have 1: "400 * q1 \<le> 100 * x" using assms(2) by linarith
  have 2: "4 * x - 128 < 400 * q2" using assms(3) by linarith
  have 3: "400 * q1 - 400 * q2 + 400 * q3 \<le> 97 * x + 496" using 1 2 assms(4) by linarith
  have 4: "400 * (365 * (x - 1) + q1 - q2 + q3)
             = 146000 * x - 146000 + (400 * q1 - 400 * q2 + 400 * q3)"
    by (simp add: algebra_simps)
  have "400 * (365 * (x - 1) + q1 - q2 + q3) \<le> 146097 * x" using 3 4 by linarith
  then have "400 * (365 * (x - 1) + q1 - q2 + q3) \<le> 400 * d" using assms(1) by linarith
  then show ?thesis by simp
qed

lemma year_estimate_high:
  fixes x d p1 p2 p3 :: int
  assumes "400 * d < 146097 * x + 146097"
      and "x + 3 < 4 * p1 + 4" and "100 * p2 \<le> x + 71" and "x + 371 < 400 * p3 + 400"
  shows "d < 365 * (x + 2) + p1 - p2 + p3"
proof -
  have 1: "100 * x - 100 < 400 * p1" using assms(2) by linarith
  have 2: "400 * p2 \<le> 4 * x + 284" using assms(3) by linarith
  have 3: "97 * x - 413 < 400 * p1 - 400 * p2 + 400 * p3" using 1 2 assms(4) by linarith
  have 4: "400 * (365 * (x + 2) + p1 - p2 + p3)
             = 146000 * x + 292000 + (400 * p1 - 400 * p2 + 400 * p3)"
    by (simp add: algebra_simps)
  have "146097 * x + 146097 \<le> 400 * (365 * (x + 2) + p1 - p2 + p3)" using 3 4 by linarith
  then have "400 * d < 400 * (365 * (x + 2) + p1 - p2 + p3)" using assms(1) by linarith
  then show ?thesis by simp
qed

lemma YearFromTime_bracket:
  "DayFromYear (YearFromTime t) \<le> Day t \<and> Day t < DayFromYear (YearFromTime t + 1)"
proof -
  define d where "d = Day t"
  define x where "x = (400 * d) div 146097"
  define q1 q2 q3 where "q1 = x div 4" and "q2 = (x + 68) div 100" and "q3 = (x + 368) div 400"
  define p1 p2 p3 where "p1 = (x + 3) div 4" and "p2 = (x + 71) div 100" and "p3 = (x + 371) div 400"
  have x: "146097 * x \<le> 400 * d" "400 * d < 146097 * x + 146097"
    unfolding x_def using div_lower [of 146097 "400 * d"] div_upper [of 146097 "400 * d"] by simp_all
  have q: "4 * q1 \<le> x" "x + 68 < 100 * q2 + 100" "400 * q3 \<le> x + 368"
    unfolding q1_def q2_def q3_def
    using div_lower [of 4 x] div_upper [of 100 "x + 68"] div_lower [of 400 "x + 368"] by simp_all
  have p: "x + 3 < 4 * p1 + 4" "100 * p2 \<le> x + 71" "x + 371 < 400 * p3 + 400"
    unfolding p1_def p2_def p3_def
    using div_upper [of 4 "x + 3"] div_lower [of 100 "x + 71"] div_upper [of 400 "x + 371"] by simp_all
  have "DayFromYear (1970 + x - 1) = 365 * (x - 1) + q1 - q2 + q3"
    by (simp add: DayFromYear_def q1_def q2_def q3_def add.commute)
  then have lo: "DayFromYear (1970 + x - 1) \<le> d"
    using year_estimate_low [OF x(1) q] by simp
  have "DayFromYear (1970 + x + 1 + 1) = 365 * (x + 2) + p1 - p2 + p3"
    by (simp add: DayFromYear_def p1_def p2_def p3_def add.commute)
  then have hi: "d < DayFromYear (1970 + x + 1 + 1)"
    using year_estimate_high [OF x(2) p] by simp
  show ?thesis
    using lo hi unfolding YearFromTime_def Let_def d_def [symmetric] x_def [symmetric]
    by auto
qed

lemma YearFromTime_range:
  assumes "- 62167219200000 \<le> t" and "t < 253402300800000"
  shows "0 \<le> YearFromTime t \<and> YearFromTime t \<le> 9999"
proof -
  have d: "- 719528 \<le> Day t" "Day t < 2932897"
    using assms unfolding Day_def msPerDay_def by linarith+
  have y0: "DayFromYear 0 = - 719528" and y1: "DayFromYear 10000 = 2932897"
    by (simp_all add: DayFromYear_def)
  have "\<not> YearFromTime t + 1 \<le> 0"
  proof
    assume "YearFromTime t + 1 \<le> 0"
    then have "DayFromYear (YearFromTime t + 1) \<le> DayFromYear 0" by (rule DayFromYear_mono)
    then show False using YearFromTime_bracket [of t] d y0 by simp
  qed
  moreover have "\<not> 10000 \<le> YearFromTime t"
  proof
    assume "10000 \<le> YearFromTime t"
    then have "DayFromYear 10000 \<le> DayFromYear (YearFromTime t)" by (rule DayFromYear_mono)
    then show False using YearFromTime_bracket [of t] d y1 by simp
  qed
  ultimately show ?thesis by simp
qed

lemma DayWithinYear_range:
  "0 \<le> DayWithinYear t \<and> DayWithinYear t < 365 + InLeapYear t"
  using YearFromTime_bracket [of t] DaysInYear_range [of "YearFromTime t"]
  by (auto simp: DayWithinYear_def InLeapYear_def DayFromYear_step)

lemma MonthFromTime_range: "0 \<le> MonthFromTime t \<and> MonthFromTime t \<le> 11"
  by (simp add: MonthFromTime_def Let_def)

lemma DateFromTime_range: "1 \<le> DateFromTime t \<and> DateFromTime t \<le> 31"
proof -
  have "InLeapYear t = 0 \<or> InLeapYear t = 1" by (simp add: InLeapYear_def)
  then show ?thesis
    using DayWithinYear_range [of t]
    unfolding DateFromTime_def MonthFromTime_def Let_def
    by (auto split: if_splits)
qed

lemma length_decimal_pos: "0 < length (decimal n)"
  by (subst decimal.simps) simp

lemma length_decimal: "n < 10 ^ Suc k \<Longrightarrow> length (decimal n) \<le> Suc k"
proof (induction k arbitrary: n)
  case 0
  then show ?case by (subst decimal.simps) simp
next
  case (Suc k)
  show ?case
  proof (cases "n < 10")
    case True
    then show ?thesis by (subst decimal.simps) simp
  next
    case False
    have "n div 10 < 10 ^ Suc k" using Suc.prems by (simp add: less_mult_imp_div_less)
    then have "length (decimal (n div 10)) \<le> Suc k" by (rule Suc.IH)
    then show ?thesis using False by (subst decimal.simps) simp
  qed
qed

lemma length_padded:
  assumes "0 \<le> n" and "n < 10 ^ Suc k"
  shows "length (ToZeroPaddedDecimalString n (Suc k)) = Suc k"
proof -
  have "nat n < 10 ^ Suc k" using assms by (simp add: nat_less_iff)
  then have "length (decimal (nat n)) \<le> Suc k" by (rule length_decimal)
  then show ?thesis by (simp add: ToZeroPaddedDecimalString_def)
qed

lemma length_padded2: "0 \<le> n \<Longrightarrow> n < 100 \<Longrightarrow> length (ToZeroPaddedDecimalString n 2) = 2"
  using length_padded [of n 1] by (simp add: numeral_2_eq_2)

lemma length_padded4: "0 \<le> n \<Longrightarrow> n < 10000 \<Longrightarrow> length (ToZeroPaddedDecimalString n 4) = 4"
  using length_padded [of n 3] by (simp add: numeral_eq_Suc)

lemma substr_iso:
  assumes "length Y = 4" "length M = 2" "length D = 2" "length H = 2"
      and "length Mi = 2" "length S = 2"
  shows "substr (Y @ CHR ''-'' # M @ CHR ''-'' # D @ CHR ''T'' # H @ CHR '':'' # Mi @ CHR '':'' # S @ rest)
           14 5 = Mi @ CHR '':'' # S"
  using assms by (simp add: substr_def)

lemma label_minutes_seconds:
  assumes "- 62167219200000 \<le> t" and "t < 253402300800000"
  shows "\<exists>isoString. toISOString (TimeClip t) = Returns isoString
           \<and> substr isoString 14 5 = minutes_seconds t"
proof -
  have c: "TimeClip t = Some t" using assms by (simp add: TimeClip_def)
  have y: "0 \<le> YearFromTime t \<and> YearFromTime t \<le> 9999"
    using assms by (rule YearFromTime_range)
  have l: "length (ToZeroPaddedDecimalString (YearFromTime t) 4) = 4"
    "length (ToZeroPaddedDecimalString (MonthFromTime t + 1) 2) = 2"
    "length (ToZeroPaddedDecimalString (DateFromTime t) 2) = 2"
    "length (ToZeroPaddedDecimalString (HourFromTime t) 2) = 2"
    "length (ToZeroPaddedDecimalString (t div 60000 mod 60) 2) = 2"
    "length (ToZeroPaddedDecimalString (t div 1000 mod 60) 2) = 2"
    using y MonthFromTime_range [of t] DateFromTime_range [of t]
    by (simp_all add: length_padded2 length_padded4 HourFromTime_def)
  show ?thesis
    using y by (simp add: c toISOString_def Let_def substr_iso [OF l] minutes_seconds_def
        MinFromTime_def SecFromTime_def)
qed

section \<open>Lemmas on the page\<close>

lemma query_v_simp [simp]: "query_v q ''v'' = q"
  by (simp add: query_v_def)

lemma text_content_pages:
  "text_content missing_page =
     ''Missing Video ID'' @ ''Please provide a video ID in the URL, like: /watch?v=VIDEO_ID''"
  "text_content (error_page v) =
     ''Error'' @ ''Could not fetch transcript for video ID: '' @ v
     @ ''. An error occurred during fetching or processing.''"
  "text_content (no_transcript_page v) =
     ''No Transcript Available'' @ ''No transcript could be found for video ID: '' @ v @ ''.''
     @ ''This might be because the video ID is invalid, the video is private, or it simply doesn't have captions/transcript.''"
  "text_content (transcript_page v rows) =
     ''Transcript for Video ID: '' @ v @ concat (map text_content rows)"
  by (simp_all add: missing_page_def error_page_def no_transcript_page_def transcript_page_def)

lemma WatchPage_fst:
  "fst (WatchPage searchParams w) =
     (case searchParams ''v'' of
        Str v \<Rightarrow>
          if v = [] then Returns missing_page
          else (case fst (getTranscript v w) of
                  Throws \<Rightarrow> Throws
                | Returns None \<Rightarrow> Returns (error_page v)
                | Returns (Some ts) \<Rightarrow>
                    if ts = [] then Returns (no_transcript_page v)
                    else (case render_entries ts 0 of
                            Throws \<Rightarrow> Throws
                          | Returns rows \<Rightarrow> Returns (transcript_page v rows)))
      | _ \<Rightarrow> Returns missing_page)"
  by (simp add: WatchPage_def split: query_value.split prod.split option.split outcome.split)

lemma WatchPage_snd:
  "snd (WatchPage searchParams w) =
     (case searchParams ''v'' of
        Str v \<Rightarrow> if v = [] then w else snd (getTranscript v w)
      | _ \<Rightarrow> w)"
  by (simp add: WatchPage_def split: query_value.split prod.split option.split outcome.split)

lemma render_entries_labels:
  assumes "\<forall>e \<in> set ts. - 62167219200000 \<le> offset e \<and> offset e < 253402300800000"
  shows "\<exists>rows. render_entries ts index = Returns rows
           \<and> concat (map text_content rows)
               = concat (map (\<lambda>e. minutes_seconds (offset e) @ text e) ts)"
  using assms
proof (induction ts arbitrary: index)
  case Nil
  show ?case by simp
next
  case (Cons e ts)
  obtain isoString where i: "toISOString (TimeClip (offset e)) = Returns isoString"
    "substr isoString 14 5 = minutes_seconds (offset e)"
    using label_minutes_seconds [of "offset e"] Cons.prems by auto
  obtain rows where r: "render_entries ts (Suc index) = Returns rows"
    "concat (map text_content rows) = concat (map (\<lambda>e. minutes_seconds (offset e) @ text e) ts)"
    using Cons.IH [of "Suc index"] Cons.prems by auto
  show ?case
    by (simp add: render_entry_def i r)
qed

lemma after_lookup_longer: "length (effects w) < length (effects (after_lookup v w))"
  by (simp add: after_lookup_def check_cache_def kv_get_def split: option.split)

lemma getTranscript_longer: "length (effects w) < length (effects (snd (getTranscript v w)))"
proof -
  have "length (effects (after_lookup v w))
          \<le> length (effects (snd (fetch_transcript kv k v u (after_lookup v w))))" for kv k u
    by (rule prefix_length_le [OF fetch_transcript_prefix])
  then show ?thesis
    using after_lookup_longer [of w v]
    by (auto simp: getTranscript_unfold split: option.split outcome.split intro: less_le_trans)
qed

lemma getTranscript_changes_world: "snd (getTranscript v w) \<noteq> w"
  using getTranscript_longer [of w v] by auto

section \<open>The page: properties\<close>

text \<open>
  What the page does. A parameter \<open>v\<close> that is missing, not a string, or the empty string
  gives the missing-identifier page and leaves the world as it is: the resolver is not
  called, since every call of the resolver changes the world. Otherwise the resolver is
  called once: the failure marker gives the error page, the empty sequence the
  no-transcript page, both with the identifier in their text; and a non-empty sequence
  whose offsets are dates of the years 0 to 9999 gives the transcript page, whose rows
  are, in the order of the sequence, the minutes and seconds of the offset followed by
  the text of the entry.
\<close>

lemma watch_page_dispatch:
  "((searchParams ''v'' = Undefined \<or> (\<exists>vs. searchParams ''v'' = StrArray vs)
      \<or> searchParams ''v'' = Str [])
     \<longrightarrow> WatchPage searchParams w = (Returns missing_page, w))
   \<and> (searchParams ''v'' = Str videoId \<and> videoId \<noteq> []
     \<longrightarrow> snd (WatchPage searchParams w) = snd (getTranscript videoId w)
         \<and> snd (getTranscript videoId w) \<noteq> w
         \<and> (fst (getTranscript videoId w) = Returns None
              \<longrightarrow> fst (WatchPage searchParams w) = Returns (error_page videoId))
         \<and> (fst (getTranscript videoId w) = Returns (Some [])
              \<longrightarrow> fst (WatchPage searchParams w) = Returns (no_transcript_page videoId))
         \<and> (fst (getTranscript videoId w) = Returns (Some ts) \<and> ts \<noteq> []
              \<and> (\<forall>e \<in> set ts. - 62167219200000 \<le> offset e \<and> offset e < 253402300800000)
              \<longrightarrow> (\<exists>rows. fst (WatchPage searchParams w) = Returns (transcript_page videoId rows)
                     \<and> concat (map text_content rows)
                         = concat (map (\<lambda>e. minutes_seconds (offset e) @ text e) ts))))
   \<and> text_content missing_page =
        ''Missing Video ID'' @ ''Please provide a video ID in the URL, like: /watch?v=VIDEO_ID''
   \<and> text_content (error_page videoId) =
        ''Error'' @ ''Could not fetch transcript for video ID: '' @ videoId
        @ ''. An error occurred during fetching or processing.''
   \<and> text_content (no_transcript_page videoId) =
        ''No Transcript Available'' @ ''No transcript could be found for video ID: '' @ videoId
        @ ''.'' @ ''This might be because the video ID is invalid, the video is private, or it simply doesn't have captions/transcript.''
   \<and> text_content (transcript_page videoId rows') =
        ''Transcript for Video ID: '' @ videoId @ concat (map text_content rows')"
proof (intro conjI impI)
  assume "searchParams ''v'' = Undefined \<or> (\<exists>vs. searchParams ''v'' = StrArray vs)
      \<or> searchParams ''v'' = Str []"
  then show "WatchPage searchParams w = (Returns missing_page, w)"
    by (auto simp: WatchPage_def)
next
  assume "searchParams ''v'' = Str videoId \<and> videoId \<noteq> []"
  then show "snd (WatchPage searchParams w) = snd (getTranscript videoId w)"
    by (simp add: WatchPage_snd)
next
  show "snd (getTranscript videoId w) \<noteq> w"
    by (rule getTranscript_changes_world)
next
  assume "searchParams ''v'' = Str videoId \<and> videoId \<noteq> []"
    and "fst (getTranscript videoId w) = Returns None"
  then show "fst (WatchPage searchParams w) = Returns (error_page videoId)"
    by (simp add: WatchPage_fst)
next
  assume "searchParams ''v'' = Str videoId \<and> videoId \<noteq> []"
    and "fst (getTranscript videoId w) = Returns (Some [])"
  then show "fst (WatchPage searchParams w) = Returns (no_transcript_page videoId)"
    by (simp add: WatchPage_fst)
next
  assume v: "searchParams ''v'' = Str videoId \<and> videoId \<noteq> []"
    and t: "fst (getTranscript videoId w) = Returns (Some ts) \<and> ts \<noteq> []
              \<and> (\<forall>e \<in> set ts. - 62167219200000 \<le> offset e \<and> offset e < 253402300800000)"
  then obtain rows where r: "render_entries ts 0 = Returns rows"
    "concat (map text_content rows) = concat (map (\<lambda>e. minutes_seconds (offset e) @ text e) ts)"
    using render_entries_labels [of ts 0] by blast
  show "\<exists>rows. fst (WatchPage searchParams w) = Returns (transcript_page videoId rows)
                     \<and> concat (map text_content rows)
                         = concat (map (\<lambda>e. minutes_seconds (offset e) @ text e) ts)"
    using v t r by (intro exI [of _ rows]) (simp add: WatchPage_fst)
qed (simp_all only: text_content_pages)

lemma watch_page_samples:
  "WatchPage (query_v Undefined) (sample_world (Some ''key'') None Rejected)
     = (Returns missing_page, sample_world (Some ''key'') None Rejected)
   \<and> fst (WatchPage (query_v (Str ''abc123'')) (sample_world (Some ''key'') None Rejected))
     = Returns (error_page ''abc123'')
   \<and> fst (WatchPage (query_v (Str ''missing1''))
            (sample_world (Some ''key'') None (Resolved not_found_response)))
     = Returns (no_transcript_page ''missing1'')
   \<and> (\<exists>rows. fst (WatchPage (query_v (Str ''abc123''))
               (sample_world (Some ''key'') None
                  (Resolved (json_response
                     \<lparr>transcript = Some [\<lparr>offset = 0, text = ''Hello''\<rparr>,
                                          \<lparr>offset = 3723000, text = ''world''\<rparr>],
                      error = None\<rparr>))))
             = Returns (transcript_page ''abc123'' rows)
           \<and> concat (map text_content rows) = ''00:00Hello02:03world'')"
proof -
  let ?ts = "[\<lparr>offset = 0, text = ''Hello''\<rparr>, \<lparr>offset = 3723000, text = ''world''\<rparr>]"
  let ?w1 = "sample_world (Some ''key'') None Rejected"
  let ?w2 = "sample_world (Some ''key'') None (Resolved not_found_response)"
  let ?w3 = "sample_world (Some ''key'') None
               (Resolved (json_response \<lparr>transcript = Some ?ts, error = None\<rparr>))"
  have r1: "fst (getTranscript ''abc123'' ?w1) = Returns None"
    by (simp add: getTranscript_result truthy_def cached_def)
  have r2: "fst (getTranscript ''missing1'' ?w2) = Returns (Some [])"
    by (simp add: getTranscript_result truthy_def cached_def handle_response_not_ok)
  have r3: "fst (getTranscript ''abc123'' ?w3) = Returns (Some ?ts)"
    by (simp add: getTranscript_result truthy_def cached_def handle_response_json)
  have m: "minutes_seconds 0 = ''00:00''" "minutes_seconds 3723000 = ''02:03''"
    by (simp_all add: minutes_seconds_def ToZeroPaddedDecimalString_def decimal.simps digit_def)
  from watch_page_dispatch [where searchParams = "query_v Undefined" and w = ?w1]
  have 1: "WatchPage (query_v Undefined) ?w1 = (Returns missing_page, ?w1)" by simp
  from watch_page_dispatch [where searchParams = "query_v (Str ''abc123'')" and videoId = "''abc123''" and w = ?w1] r1
  have 2: "fst (WatchPage (query_v (Str ''abc123'')) ?w1) = Returns (error_page ''abc123'')" by simp
  from watch_page_dispatch [where searchParams = "query_v (Str ''missing1'')" and videoId = "''missing1''" and w = ?w2] r2
  have 3: "fst (WatchPage (query_v (Str ''missing1'')) ?w2) = Returns (no_transcript_page ''missing1'')"
    by simp
  from watch_page_dispatch [where searchParams = "query_v (Str ''abc123'')" and videoId = "''abc123''" and w = ?w3
              and ts = ?ts] r3 m
  have 4: "\<exists>rows. fst (WatchPage (query_v (Str ''abc123'')) ?w3) = Returns (transcript_page ''abc123'' rows)
           \<and> concat (map text_content rows) = ''00:00Hello02:03world''" by simp
  from 1 2 3 4 show ?thesis by blast
qed

text \<open>
  Claim C8 on the code: line 76 cuts the label at a fixed place of the ISO string,
  \<open>substr(14, 5)\<close>. For a date beyond the year 9999 \<open>toISOString\<close> prints the year with a
  sign and six digits, and the five characters cut are the hours and the minutes. When
  the provider answers with an entry at 253402304523000 milliseconds, whose minutes and
  seconds are 02:03, the page shows the label 01:02.
\<close>

theorem label_beyond_year_9999:
  "minutes_seconds 253402304523000 = ''02:03''
   \<and> fst (WatchPage (query_v (Str ''abc123''))
          (sample_world (Some ''key'') None
             (Resolved (json_response
                \<lparr>transcript = Some [\<lparr>offset = 253402304523000, text = ''Hello''\<rparr>],
                 error = None\<rparr>))))
     = Returns (transcript_page ''abc123''
         [Element ''div'' (Some 0) (Some ''p-2 border rounded bg-gray-50'')
            [Element ''span'' None (Some ''text-sm text-gray-500 mr-2'') [Text ''01:02''],
             Element ''span'' None None [Text ''Hello'']]])"
proof -
  have m: "minutes_seconds 253402304523000 = ''02:03''"
    by (simp add: minutes_seconds_def ToZeroPaddedDecimalString_def decimal.simps digit_def)
  have y: "YearFromTime 253402304523000 = 10000"
    by (simp add: YearFromTime_def Day_def msPerDay_def DayFromYear_def)
  have i: "substr (case toISOString (TimeClip 253402304523000) of Returns s \<Rightarrow> s | Throws \<Rightarrow> []) 14 5
             = ''01:02''"
    by (simp add: toISOString_def TimeClip_def y substr_def ToZeroPaddedDecimalString_def
          decimal.simps digit_def HourFromTime_def MinFromTime_def SecFromTime_def msFromTime_def
          MonthFromTime_def DateFromTime_def DayWithinYear_def InLeapYear_def DaysInYear_def
          Day_def msPerDay_def DayFromYear_def)
  have v: "toISOString (TimeClip 253402304523000) \<noteq> Throws"
    by (simp add: toISOString_def TimeClip_def Let_def)
  have r: "fst (getTranscript ''abc123''
          (sample_world (Some ''key'') None
             (Resolved (json_response
                \<lparr>transcript = Some [\<lparr>offset = 253402304523000, text = ''Hello''\<rparr>],
                 error = None\<rparr>))))
        = Returns (Some [\<lparr>offset = 253402304523000, text = ''Hello''\<rparr>])"
    by (simp add: getTranscript_result truthy_def cached_def handle_response_json)
  show ?thesis
    using m i v by (simp add: WatchPage_fst r render_entry_def split: outcome.splits)
qed
end
